theory Spec2Isabelle
  imports Complex_Main
begin

section \<open>Python strings\<close>

text \<open>
  A Python \<^verbatim>\<open>str\<close> is modelled as a \<^typ>\<open>string\<close>. The development covers ASCII text:
  on ASCII characters the functions below agree with \<^verbatim>\<open>str.isspace\<close>, \<^verbatim>\<open>str.strip\<close>,
  \<^verbatim>\<open>str.upper\<close> and \<^verbatim>\<open>str.lower\<close>. Alternatives of a regular expression that name a
  character outside ASCII (the en and em dashes, the bullet and check marks) cannot match
  ASCII text and are left out where the source lists them.
\<close>

definition py_isspace :: "char \<Rightarrow> bool" where
  "py_isspace c \<longleftrightarrow>
     c \<in> set [CHR 0x09, CHR 0x0A, CHR 0x0B, CHR 0x0C, CHR 0x0D,
              CHR 0x1C, CHR 0x1D, CHR 0x1E, CHR 0x1F, CHR 0x20]"

definition py_lstrip :: "string \<Rightarrow> string" where
  "py_lstrip s = dropWhile py_isspace s"

definition py_rstrip :: "string \<Rightarrow> string" where
  "py_rstrip s = rev (dropWhile py_isspace (rev s))"

definition py_strip :: "string \<Rightarrow> string" where
  "py_strip s = py_rstrip (py_lstrip s)"

definition lower_letters :: string where
  "lower_letters = ''abcdefghijklmnopqrstuvwxyz''"

definition upper_letters :: string where
  "upper_letters = ''ABCDEFGHIJKLMNOPQRSTUVWXYZ''"

definition upper_char :: "char \<Rightarrow> char" where
  "upper_char c = (case map_of (zip lower_letters upper_letters) c of Some u \<Rightarrow> u | None \<Rightarrow> c)"

definition lower_char :: "char \<Rightarrow> char" where
  "lower_char c = (case map_of (zip upper_letters lower_letters) c of Some l \<Rightarrow> l | None \<Rightarrow> c)"

definition py_upper :: "string \<Rightarrow> string" where
  "py_upper s = map upper_char s"

definition py_lower :: "string \<Rightarrow> string" where
  "py_lower s = map lower_char s"

definition is_digit :: "char \<Rightarrow> bool" where
  "is_digit c \<longleftrightarrow> c \<in> set ''0123456789''"

definition is_upper_letter :: "char \<Rightarrow> bool" where
  "is_upper_letter c \<longleftrightarrow> c \<in> set upper_letters"

definition is_lower_letter :: "char \<Rightarrow> bool" where
  "is_lower_letter c \<longleftrightarrow> c \<in> set lower_letters"

text \<open>\<^verbatim>\<open>s.startswith(p)\<close>, \<^verbatim>\<open>s.endswith(p)\<close> and \<^verbatim>\<open>sub in s\<close>.\<close>

definition startswith :: "string \<Rightarrow> string \<Rightarrow> bool" where
  "startswith s p \<longleftrightarrow> take (length p) s = p"

definition endswith :: "string \<Rightarrow> string \<Rightarrow> bool" where
  "endswith s p \<longleftrightarrow> startswith (rev s) (rev p)"

fun contains :: "string \<Rightarrow> string \<Rightarrow> bool" where
  "contains [] sub \<longleftrightarrow> sub = []"
| "contains (c # cs) sub \<longleftrightarrow> startswith (c # cs) sub \<or> contains cs sub"

text \<open>\<^verbatim>\<open>s.split(sep)\<close> for a one-character separator: the pieces between the separators.\<close>

fun split_on :: "char \<Rightarrow> string \<Rightarrow> string list" where
  "split_on sep [] = [[]]"
| "split_on sep (c # cs) =
     (if c = sep then [] # split_on sep cs
      else (case split_on sep cs of [] \<Rightarrow> [[c]] | p # ps \<Rightarrow> (c # p) # ps))"

text \<open>
  \<^verbatim>\<open>re.split\<close> on a pattern that matches the maximal runs of one character class
  (\<^verbatim>\<open>[\r\n]+\<close>, \<^verbatim>\<open>[\s,/]+\<close>): the pieces between the runs, an empty piece at an end
  where the text starts or ends with a run.
\<close>

function split_runs :: "(char \<Rightarrow> bool) \<Rightarrow> string \<Rightarrow> string list" where
  "split_runs P [] = [[]]"
| "split_runs P (c # cs) =
     (if P c then [] # split_runs P (dropWhile P cs)
      else (case split_runs P cs of [] \<Rightarrow> [[c]] | p # ps \<Rightarrow> (c # p) # ps))"
  by pat_completeness auto
termination
  by (relation "measure (\<lambda>(P, s). length s)") (auto simp: length_dropWhile_le le_imp_less_Suc)

text \<open>\<^verbatim>\<open>s.split()\<close>: the words between runs of whitespace, none of them empty.\<close>

definition py_split :: "string \<Rightarrow> string list" where
  "py_split s = filter (\<lambda>w. w \<noteq> []) (split_runs py_isspace s)"

text \<open>
  \<^verbatim>\<open>re.sub(cls+, rep, s)\<close>: every maximal run of the class replaced by \<open>rep\<close>;
  \<^verbatim>\<open>re.sub(r"\s+", " ", s)\<close> is \<open>collapse_ws\<close>.
\<close>

function sub_runs :: "(char \<Rightarrow> bool) \<Rightarrow> string \<Rightarrow> string \<Rightarrow> string" where
  "sub_runs P rep [] = []"
| "sub_runs P rep (c # cs) =
     (if P c then rep @ sub_runs P rep (dropWhile P cs) else c # sub_runs P rep cs)"
  by pat_completeness auto
termination
  by (relation "measure (\<lambda>(P, rep, s). length s)") (auto simp: length_dropWhile_le le_imp_less_Suc)

definition collapse_ws :: "string \<Rightarrow> string" where
  "collapse_ws s = sub_runs py_isspace '' '' s"

text \<open>\<^verbatim>\<open>sep.join(parts)\<close>.\<close>

fun join :: "string \<Rightarrow> string list \<Rightarrow> string" where
  "join sep [] = []"
| "join sep [p] = p"
| "join sep (p # q # ps) = p @ sep @ join sep (q # ps)"

text \<open>\<^verbatim>\<open>s.strip(chars)\<close> and \<^verbatim>\<open>s.lstrip(chars)\<close> with an explicit character set.\<close>

definition lstrip_chars :: "string \<Rightarrow> string \<Rightarrow> string" where
  "lstrip_chars chars s = dropWhile (\<lambda>c. c \<in> set chars) s"

definition strip_chars :: "string \<Rightarrow> string \<Rightarrow> string" where
  "strip_chars chars s =
     rev (dropWhile (\<lambda>c. c \<in> set chars) (rev (dropWhile (\<lambda>c. c \<in> set chars) s)))"

text \<open>Decimal numerals: the value of a digit string, and \<^verbatim>\<open>str(n)\<close> for \<open>n \<ge> 0\<close>.\<close>

definition digit_value :: "char \<Rightarrow> nat" where
  "digit_value c = (case map_of (zip ''0123456789'' [0, 1, 2, 3, 4, 5, 6, 7, 8, 9]) c of
                      Some d \<Rightarrow> d | None \<Rightarrow> 0)"

definition nat_of_digits :: "string \<Rightarrow> nat" where
  "nat_of_digits s = foldl (\<lambda>acc c. 10 * acc + digit_value c) 0 s"

definition digit_char :: "nat \<Rightarrow> char" where
  "digit_char d = ''0123456789'' ! d"

function show_nat :: "nat \<Rightarrow> string" where
  "show_nat n = (if n < 10 then [digit_char n] else show_nat (n div 10) @ [digit_char (n mod 10)])"
  by pat_completeness auto
termination
  by (relation "measure id") auto

declare show_nat.simps [simp del]

section \<open>The tree decoded from the embedded dataset\<close>

text \<open>
  \<^verbatim>\<open>_xml_node_to_obj\<close> builds a tree of trimmed leaf strings, mappings from child tag to
  child (a Python dict, kept here in insertion order) and lists (a tag repeated under one
  parent). \<^verbatim>\<open>dict.get\<close> of an absent key, and \<^verbatim>\<open>None\<close>, are the value \<^term>\<open>None\<close>.
  Numbers never occur in such a tree, so the numeric branch of \<^verbatim>\<open>_coerce_to_string\<close> is
  not reachable and is not modelled.
\<close>

datatype obj = Str string | Dict "(string \<times> obj) list" | Arr "obj list"

fun coerce_obj :: "obj \<Rightarrow> string option"
  and coerce_values :: "(string \<times> obj) list \<Rightarrow> string option"
  and coerce_elems :: "obj list \<Rightarrow> string option" where
  "coerce_obj (Str s) = (let cleaned = py_strip s in if cleaned = [] then None else Some cleaned)"
| "coerce_obj (Dict kvs) = coerce_values kvs"
| "coerce_obj (Arr xs) = coerce_elems xs"
| "coerce_values [] = None"
| "coerce_values (kv # kvs) =
     (case coerce_obj (snd kv) of Some r \<Rightarrow> Some r | None \<Rightarrow> coerce_values kvs)"
| "coerce_elems [] = None"
| "coerce_elems (x # xs) =
     (case coerce_obj x of Some r \<Rightarrow> Some r | None \<Rightarrow> coerce_elems xs)"

definition coerce_to_string :: "obj option \<Rightarrow> string option" where
  "coerce_to_string v = (case v of None \<Rightarrow> None | Some x \<Rightarrow> coerce_obj x)"

section \<open>The risk normalizer\<close>

definition mapping :: "(string \<times> string) list" where
  "mapping =
     [(''EXTREMELY HIGH'', ''EH''), (''VERY HIGH'', ''H''), (''HIGH'', ''H''),
      (''MEDIUM'', ''M''), (''MED'', ''M''), (''LOW'', ''L''),
      (''MODERATE'', ''M''), (''NEGLIGIBLE'', ''L'')]"

definition numeric_map :: "(string \<times> string) list" where
  "numeric_map = [(''0'', ''L''), (''1'', ''M''), (''2'', ''H''), (''3'', ''EH'')]"

definition normalize_risk_level :: "obj option \<Rightarrow> string option" where
  "normalize_risk_level v =
     (case coerce_to_string v of
        None \<Rightarrow> None
      | Some raw \<Rightarrow>
          (let raw_upper = py_upper raw in
           case map_of mapping raw_upper of
             Some code \<Rightarrow> Some code
           | None \<Rightarrow>
               (case map_of numeric_map raw of
                  Some code \<Rightarrow> Some code
                | None \<Rightarrow>
                    if raw_upper \<in> set [''EH'', ''H'', ''M'', ''L''] then Some raw_upper
                    else Some raw)))"

section \<open>The aggregate of the residual risks\<close>

text \<open>The exceptions of Python that the code can raise here.\<close>

datatype py_error = ValueError | OverflowError

text \<open>
  \<^verbatim>\<open>float(r)\<close> is applied to text that is already stripped and upper-cased. The grammar
  it accepts there is
  \<^verbatim>\<open>[sign] (INF | INFINITY | NAN | digitpart ["." [digitpart]] [exp] | "." digitpart [exp])\<close>
  with \<^verbatim>\<open>digitpart = digit (["_"] digit)*\<close> and \<^verbatim>\<open>exp = "E" [sign] digitpart\<close>; on anything
  else it raises \<^verbatim>\<open>ValueError\<close>, which the caller catches to skip the element.
  \<open>digitpart s\<close> is the digits of a digitpart at the front of \<open>s\<close> (the underscores left
  out) and the text after it.
\<close>

fun digits_tail :: "string \<Rightarrow> string \<times> string" where
  "digits_tail (c # d # ds) =
     (if is_digit c then apfst ((#) c) (digits_tail (d # ds))
      else if c = CHR ''_'' \<and> is_digit d then apfst ((#) d) (digits_tail ds)
      else ([], c # d # ds))"
| "digits_tail [c] = (if is_digit c then ([c], []) else ([], [c]))"
| "digits_tail [] = ([], [])"

definition digitpart :: "string \<Rightarrow> (string \<times> string) option" where
  "digitpart s = (case s of [] \<Rightarrow> None
                  | c # cs \<Rightarrow> if is_digit c then Some (apfst ((#) c) (digits_tail cs)) else None)"

text \<open>A sign at the front: whether it is a minus, and the text after it.\<close>

definition split_sign :: "string \<Rightarrow> bool \<times> string" where
  "split_sign s = (case s of [] \<Rightarrow> (False, [])
                   | c # cs \<Rightarrow> if c = CHR ''+'' then (False, cs)
                              else if c = CHR ''-'' then (True, cs) else (False, s))"

text \<open>The exponent a literal ends with: 0 where there is none, \<^term>\<open>None\<close> where the text is no exponent.\<close>

definition exponent :: "string \<Rightarrow> int option" where
  "exponent r =
     (case r of
        [] \<Rightarrow> Some 0
      | c # cs \<Rightarrow>
          if c = CHR ''E''
          then (case digitpart (snd (split_sign cs)) of
                  Some (ds, rest) \<Rightarrow>
                    if rest = []
                    then Some (if fst (split_sign cs) then - int (nat_of_digits ds)
                               else int (nat_of_digits ds))
                    else None
                | None \<Rightarrow> None)
          else None)"

text \<open>An unsigned decimal literal: the digits before the point, those after it, the exponent.\<close>

definition decimal :: "string \<Rightarrow> (string \<times> string \<times> int) option" where
  "decimal t =
     (case digitpart t of
        Some (whole, rest) \<Rightarrow>
          (case rest of
             [] \<Rightarrow> Some (whole, [], 0)
           | c # r \<Rightarrow>
               if c = CHR ''.''
               then (case digitpart r of
                       Some (fraction, r2) \<Rightarrow> map_option (\<lambda>e. (whole, fraction, e)) (exponent r2)
                     | None \<Rightarrow> map_option (\<lambda>e. (whole, [], e)) (exponent r))
               else map_option (\<lambda>e. (whole, [], e)) (exponent rest))
      | None \<Rightarrow>
          (case t of
             [] \<Rightarrow> None
           | c # r \<Rightarrow>
               if c = CHR ''.''
               then (case digitpart r of
                       Some (fraction, r2) \<Rightarrow> map_option (\<lambda>e. ([], fraction, e)) (exponent r2)
                     | None \<Rightarrow> None)
               else None))"

text \<open>
  The doubles (IEEE 754 binary64) as the values they stand for. The sign of zero is not
  kept: \<^verbatim>\<open>-0.0\<close> and \<^verbatim>\<open>0.0\<close> compare equal and both give the integer 0.
\<close>

datatype double = Finite rat | Pos_inf | Neg_inf | Nan

definition pow_int :: "rat \<Rightarrow> int \<Rightarrow> rat" where
  "pow_int b k = (if 0 \<le> k then b ^ nat k else 1 / b ^ nat (- k))"

text \<open>\<^verbatim>\<open>n.bit_length()\<close>, and for \<open>a > 0\<close> the \<open>e\<close> with \<open>2^e \<le> a < 2^(e+1)\<close>.\<close>

function bit_length :: "nat \<Rightarrow> nat" where
  "bit_length n = (if n = 0 then 0 else Suc (bit_length (n div 2)))"
  by pat_completeness auto
termination
  by (relation "measure id") auto

declare bit_length.simps [simp del]

definition floor_log2 :: "rat \<Rightarrow> int" where
  "floor_log2 a =
     (if 1 \<le> a then int (bit_length (nat \<lfloor>a\<rfloor>)) - 1
      else - int (bit_length (nat (\<lceil>1 / a\<rceil> - 1))))"

definition round_half_even :: "rat \<Rightarrow> int" where
  "round_half_even q =
     (if q - of_int \<lfloor>q\<rfloor> < 1 / 2 then \<lfloor>q\<rfloor>
      else if 1 / 2 < q - of_int \<lfloor>q\<rfloor> then \<lfloor>q\<rfloor> + 1
      else if even \<lfloor>q\<rfloor> then \<lfloor>q\<rfloor> else \<lfloor>q\<rfloor> + 1)"

text \<open>
  The double nearest to a rational, ties to the even significand: 53 bits of significand
  down to the exponent -1074 of the subnormals, and infinity from \<open>2^1024\<close> on.
\<close>

definition double_of :: "rat \<Rightarrow> double" where
  "double_of q =
     (if q = 0 then Finite 0
      else
        let ulp = pow_int 2 (max (floor_log2 \<bar>q\<bar> - 52) (- 1074));
            nearest = of_int (round_half_even (\<bar>q\<bar> / ulp)) * ulp
        in if pow_int 2 1024 \<le> nearest then (if q < 0 then Neg_inf else Pos_inf)
           else Finite (if q < 0 then - nearest else nearest))"

text \<open>\<^verbatim>\<open>float(r)\<close>: \<^term>\<open>None\<close> where it raises \<^verbatim>\<open>ValueError\<close>.\<close>

definition py_float :: "string \<Rightarrow> double option" where
  "py_float r =
     (let negative = fst (split_sign r); t = snd (split_sign r) in
      if t = ''INF'' \<or> t = ''INFINITY'' then Some (if negative then Neg_inf else Pos_inf)
      else if t = ''NAN'' then Some Nan
      else case decimal t of
             None \<Rightarrow> None
           | Some (whole, fraction, e) \<Rightarrow>
               Some (double_of
                       ((if negative then - 1 else 1) * of_nat (nat_of_digits (whole @ fraction))
                        * pow_int 10 (e - int (length fraction)))))"

text \<open>\<^verbatim>\<open>x > y\<close> on doubles: false whenever one of them is nan.\<close>

fun float_gt :: "double \<Rightarrow> double \<Rightarrow> bool" where
  "float_gt (Finite a) (Finite b) \<longleftrightarrow> b < a"
| "float_gt (Finite a) Neg_inf \<longleftrightarrow> True"
| "float_gt Pos_inf (Finite b) \<longleftrightarrow> True"
| "float_gt Pos_inf Neg_inf \<longleftrightarrow> True"
| "float_gt _ _ \<longleftrightarrow> False"

text \<open>\<^verbatim>\<open>max(x :: xs)\<close> on doubles: an element replaces the best so far where it is greater.\<close>

definition py_max :: "double \<Rightarrow> double list \<Rightarrow> double" where
  "py_max x xs = foldl (\<lambda>best y. if float_gt y best then y else best) x xs"

text \<open>
  \<^verbatim>\<open>int(x)\<close> of a double: the integer part, towards zero; \<^verbatim>\<open>OverflowError\<close> on an infinity
  and \<^verbatim>\<open>ValueError\<close> on nan. \<^verbatim>\<open>str(n)\<close> of an integer.
\<close>

definition float_to_int :: "double \<Rightarrow> py_error + int" where
  "float_to_int x =
     (case x of
        Finite q \<Rightarrow> Inr (if 0 \<le> q then \<lfloor>q\<rfloor> else \<lceil>q\<rceil>)
      | Pos_inf \<Rightarrow> Inl OverflowError
      | Neg_inf \<Rightarrow> Inl OverflowError
      | Nan \<Rightarrow> Inl ValueError)"

definition show_int :: "int \<Rightarrow> string" where
  "show_int z = (if z < 0 then CHR ''-'' # show_nat (nat (- z)) else show_nat (nat z))"

definition risk_order :: "(string \<times> nat) list" where
  "risk_order = [(''EH'', 4), (''H'', 3), (''M'', 2), (''L'', 1)]"

definition risk_rank :: "string \<Rightarrow> nat" where
  "risk_rank r = (case map_of risk_order r of Some n \<Rightarrow> n | None \<Rightarrow> 0)"

text \<open>\<^verbatim>\<open>max(x :: xs, key=key)\<close>: the first element whose key is the largest.\<close>

definition py_max_key :: "('a \<Rightarrow> nat) \<Rightarrow> 'a \<Rightarrow> 'a list \<Rightarrow> 'a" where
  "py_max_key key x xs = foldl (\<lambda>best y. if key best < key y then y else best) x xs"

definition clean_risks :: "string option list \<Rightarrow> string list" where
  "clean_risks residual_risks =
     map (\<lambda>r. py_upper (py_strip r))
       (filter (\<lambda>r. r \<noteq> [] \<and> py_strip r \<noteq> []) (List.map_filter (\<lambda>r. r) residual_risks))"

text \<open>
  \<open>Inl\<close> is the exception that leaves the function: the one of \<^verbatim>\<open>int\<close>, which is called
  outside the \<^verbatim>\<open>try\<close>. The \<^verbatim>\<open>ValueError\<close> of \<^verbatim>\<open>float\<close> is caught and the element skipped.
\<close>

definition calculate_overall_risk :: "string option list \<Rightarrow> py_error + string option" where
  "calculate_overall_risk residual_risks =
     (if residual_risks = [] then Inr None
      else
        let clean = clean_risks residual_risks;
            categorical_risks = filter (\<lambda>r. r \<in> set (map fst risk_order)) clean
        in case categorical_risks of
             c # cs \<Rightarrow> Inr (Some (py_max_key risk_rank c cs))
           | [] \<Rightarrow>
               (case List.map_filter py_float clean of
                  [] \<Rightarrow> Inr None
                | x # xs \<Rightarrow>
                    (case float_to_int (py_max x xs) of
                       Inl e \<Rightarrow> Inl e
                     | Inr n \<Rightarrow> Inr (Some (show_int n)))))"

section \<open>The record\<close>

record preparer =
  name_last_first_middle_initial :: "string option"
  rank_grade :: "string option"
  duty_title_position :: "string option"
  unit :: "string option"
  work_email :: "string option"
  telephone :: "string option"
  uic_cin :: "string option"
  training_support_or_lesson_plan_or_opord :: "string option"
  signature_of_preparer :: "string option"

record subtask_row =
  name :: "string option"
  hazard :: "string option"
  initial_risk_level :: "string option"
  control :: "string list"
  how :: "string list"
  who :: "string list"
  residual_risk_level :: "string option"

record dd2977 =
  mission_task_and_description :: "string option"
  date :: "string option"
  prepared_by :: preparer
  subtasks :: "subtask_row list"
  overall_residual_risk_level :: "string option"
  overall_supervision_plan :: "string option"
  approve :: nat
  disapprove :: nat

text \<open>Python's truth value of an optional string: neither \<^verbatim>\<open>None\<close> nor empty.\<close>

definition nonempty :: "string option \<Rightarrow> bool" where
  "nonempty v = (case v of None \<Rightarrow> False | Some s \<Rightarrow> s \<noteq> [])"

section \<open>The structured path\<close>

fun truthy :: "obj option \<Rightarrow> bool" where
  "truthy None = False"
| "truthy (Some (Str s)) = (s \<noteq> [])"
| "truthy (Some (Dict kvs)) = (kvs \<noteq> [])"
| "truthy (Some (Arr xs)) = (xs \<noteq> [])"

definition py_or :: "obj option \<Rightarrow> obj option \<Rightarrow> obj option" where
  "py_or a b = (if truthy a then a else b)"

definition dict_get :: "(string \<times> obj) list \<Rightarrow> string \<Rightarrow> obj option" where
  "dict_get d k = map_of d k"

definition is_marked :: "obj option \<Rightarrow> bool" where
  "is_marked v =
     (case coerce_to_string v of
        None \<Rightarrow> False
      | Some raw \<Rightarrow>
          py_lower (py_strip raw) \<in> set [''1'', ''x'', ''true'', ''checked'', ''yes'', ''on''])"

text \<open>\<^verbatim>\<open>re.sub(r"^[*\-]+\s*", "", fragment)\<close>: leading bullet marks and the blanks after them.\<close>

definition strip_bullets :: "string \<Rightarrow> string" where
  "strip_bullets fragment =
     (case fragment of
        [] \<Rightarrow> []
      | c # _ \<Rightarrow>
          if c \<in> set ''*-''
          then dropWhile py_isspace (dropWhile (\<lambda>c. c \<in> set ''*-'') fragment)
          else fragment)"

definition split_multiline :: "string option \<Rightarrow> string list" where
  "split_multiline text =
     (if \<not> nonempty text then []
      else
        filter (\<lambda>fragment. fragment \<noteq> [])
          (map (\<lambda>part. collapse_ws (strip_bullets (py_strip part)))
             (filter (\<lambda>part. py_strip part \<noteq> [])
                (split_runs (\<lambda>c. c = CHR 0x0D \<or> c = CHR 0x0A) (the text)))))"

definition rows_payload :: "(string \<times> obj) list \<Rightarrow> obj list" where
  "rows_payload part_section =
     concat (map (\<lambda>(key, v).
                    if startswith (py_lower key) ''row''
                    then (case v of Arr xs \<Rightarrow> xs | _ \<Rightarrow> [v])
                    else [])
                 part_section)"

text \<open>The first of the residual keys whose value is neither absent nor the empty string.\<close>

fun residual_risk_value :: "(string \<times> obj) list \<Rightarrow> string list \<Rightarrow> obj option" where
  "residual_risk_value entry [] = None"
| "residual_risk_value entry (key # keys) =
     (case dict_get entry key of
        None \<Rightarrow> residual_risk_value entry keys
      | Some candidate \<Rightarrow>
          if candidate = Str [] then residual_risk_value entry keys else Some candidate)"

definition residual_keys :: "string list" where
  "residual_keys =
     [''RRL'', ''ResidualRiskLevel'', ''ResidualRiskLvl'', ''ResidualRiskLevel1'',
      ''ResidualRiskLevel_1'']"

definition entry_subtask_name :: "(string \<times> obj) list \<Rightarrow> string option" where
  "entry_subtask_name entry =
     coerce_to_string
       (py_or (py_or (dict_get entry ''Subtask-Substep'') (dict_get entry ''Subtask_Substep''))
              (dict_get entry ''Subtask''))"

definition entry_table2 :: "(string \<times> obj) list \<Rightarrow> (string \<times> obj) list" where
  "entry_table2 entry =
     (case py_or (dict_get entry ''Table2'') (Some (Dict [])) of
        Some (Arr (first # _)) \<Rightarrow> (case first of Dict t \<Rightarrow> t | _ \<Rightarrow> [])
      | Some (Dict t) \<Rightarrow> t
      | _ \<Rightarrow> [])"

definition single_value :: "string option \<Rightarrow> string list" where
  "single_value text = (case text of None \<Rightarrow> [] | Some t \<Rightarrow> if t = [] then [] else [collapse_ws t])"

text \<open>One row of the table, with the name the inheritance step has settled on.\<close>

definition xfa_row :: "string option \<Rightarrow> (string \<times> obj) list \<Rightarrow> subtask_row" where
  "xfa_row subtask_name entry =
     \<lparr> name = subtask_name,
       hazard = map_option (\<lambda>h. py_strip (collapse_ws h)) (coerce_to_string (dict_get entry ''Hazard'')),
       initial_risk_level = normalize_risk_level (dict_get entry ''InitialRiskLevel''),
       control = split_multiline (coerce_to_string (dict_get entry ''Control'')),
       how = single_value (coerce_to_string (dict_get (entry_table2 entry) ''Row1'')),
       who = single_value (coerce_to_string (dict_get (entry_table2 entry) ''Row2'')),
       residual_risk_level = normalize_risk_level (residual_risk_value entry residual_keys) \<rparr>"

text \<open>
  The loop over the rows, \<open>last_subtask_name\<close> threaded through it. An entry that is not
  a mapping is skipped.
\<close>

fun xfa_subtasks :: "string option \<Rightarrow> obj list \<Rightarrow> subtask_row list" where
  "xfa_subtasks last_subtask_name [] = []"
| "xfa_subtasks last_subtask_name (Dict entry # rest) =
     (case entry_subtask_name entry of
        Some subtask_name \<Rightarrow>
          xfa_row (Some subtask_name) entry # xfa_subtasks (Some subtask_name) rest
      | None \<Rightarrow>
          xfa_row last_subtask_name entry # xfa_subtasks last_subtask_name rest)"
| "xfa_subtasks last_subtask_name (_ # rest) = xfa_subtasks last_subtask_name rest"

definition marked_level :: "obj option \<Rightarrow> string option" where
  "marked_level ten_block =
     (case ten_block of
        Some (Dict ten) \<Rightarrow>
          map_option snd
            (find (\<lambda>(key, level). is_marked (dict_get ten key))
               [(''EHigh'', ''EH''), (''High'', ''H''), (''Med'', ''M''), (''Low'', ''L'')])
      | _ \<Rightarrow> None)"

definition xfa_preparer :: "(string \<times> obj) list \<Rightarrow> preparer" where
  "xfa_preparer page1 =
     \<lparr> name_last_first_middle_initial = coerce_to_string (dict_get page1 ''A''),
       rank_grade = coerce_to_string (dict_get page1 ''B''),
       duty_title_position = coerce_to_string (dict_get page1 ''C''),
       unit = coerce_to_string (dict_get page1 ''D''),
       work_email = coerce_to_string (dict_get page1 ''E''),
       telephone = coerce_to_string (dict_get page1 ''F''),
       uic_cin = coerce_to_string (dict_get page1 ''G''),
       training_support_or_lesson_plan_or_opord = coerce_to_string (dict_get page1 ''H''),
       signature_of_preparer = coerce_to_string (dict_get page1 ''I'') \<rparr>"

definition xfa_page :: "(string \<times> obj) list \<Rightarrow> py_error + dd2977 option" where
  "xfa_page page1 =
     (let part_section = py_or (dict_get page1 ''Part4thru9'') (Some (Dict []));
          rows = xfa_subtasks None
                   (case part_section of Some (Dict ps) \<Rightarrow> rows_payload ps | _ \<Rightarrow> []);
          approval_block = py_or (dict_get page1 ''Twelve'') (Some (Dict []));
          finish = (\<lambda>overall.
            Some \<lparr> mission_task_and_description = coerce_to_string (dict_get page1 ''One''),
                   date = coerce_to_string (dict_get page1 ''Two''),
                   prepared_by = xfa_preparer page1,
                   subtasks = rows,
                   overall_residual_risk_level = overall,
                   overall_supervision_plan = coerce_to_string (dict_get page1 ''Eleven''),
                   approve = (case approval_block of
                                Some (Dict a) \<Rightarrow> if is_marked (dict_get a ''Approve'') then 1 else 0
                              | _ \<Rightarrow> 0),
                   disapprove = (case approval_block of
                                   Some (Dict a) \<Rightarrow> if is_marked (dict_get a ''Disapprove'') then 1 else 0
                                 | _ \<Rightarrow> 0) \<rparr>)
      in case marked_level (dict_get page1 ''Ten'') of
           Some level \<Rightarrow> Inr (finish (Some level))
         | None \<Rightarrow>
             (case calculate_overall_risk (map residual_risk_level rows) of
                Inl e \<Rightarrow> Inl e
              | Inr overall \<Rightarrow> Inr (finish overall)))"

text \<open>
  \<^verbatim>\<open>parse_dd2977_xfa\<close>, from the payload \<^verbatim>\<open>extract_xfa_dataset_from_pdf\<close> returned
  (\<^term>\<open>None\<close> on any failure of its own). \<open>Inr None\<close> is the \<^verbatim>\<open>None\<close> of a payload that
  has not the form's shape.
\<close>

definition parse_dd2977_xfa :: "obj option \<Rightarrow> py_error + dd2977 option" where
  "parse_dd2977_xfa payload =
     (if \<not> truthy payload then Inr None
      else case payload of
        Some (Dict tree) \<Rightarrow>
          (case dict_get tree ''form1'' of
             Some (Dict form) \<Rightarrow>
               (case py_or (dict_get form ''Page1'') (Some (Dict [])) of
                  Some (Dict page1) \<Rightarrow> xfa_page page1
                | _ \<Rightarrow> Inr None)
           | _ \<Rightarrow> Inr None)
      | _ \<Rightarrow> Inr None)"

section \<open>The heuristic path: the rows of the subtask table\<close>

definition COMMON_HAZARD_PREFIXES :: "string list" where
  "COMMON_HAZARD_PREFIXES =
     [''ACCIDENT'', ''AIRCRAFT'', ''AIR'', ''AMMUNITION'', ''APPROACH'', ''BAD'', ''BIOLOGICAL'',
      ''BURN'', ''CHEMICAL'', ''COLD'', ''CONTAMINATION'', ''CARGO'', ''DAMAGE'', ''DEHYDRATION'',
      ''DETONATION'', ''DISCHARGE'', ''DROWNING'', ''ELECTRICAL'', ''EMERGENCY'', ''EXPLOSION'',
      ''FAIL'', ''FAILURE'', ''FALL'', ''FALLS'', ''FATIGUE'', ''FIRE'', ''FRATRICIDE'', ''HAZARD'',
      ''HEAT'', ''HELICOPTER'', ''HOT'', ''ILLNESS'', ''IMPROPER'', ''INJURY'', ''INJURIES'',
      ''INSUFFICIENT'', ''INTERNAL'', ''LIGHTNING'', ''LOSS'', ''LOST'', ''LOW'', ''MECHANICAL'',
      ''MISFIRE'', ''MISSING'', ''MIS'', ''NEGLECT'', ''NEGATIVE'', ''NEGLIGENT'', ''POOR'',
      ''RADIATION'', ''RESIDUAL'', ''RISK'', ''ROAD'', ''ROLL'', ''ROLLOVER'', ''SLING'', ''SPILL'',
      ''SURFACE'', ''TRIP'', ''TRIPS'', ''UXO'', ''VEHICLE'', ''VEHICLES'', ''WEATHER'', ''WILDLIFE'',
      ''WRONG'', ''LACK'', ''INSUFFICIENT'', ''INAPPROPRIATE'', ''SLICK'', ''ICE'', ''SNOW'',
      ''RAIN'', ''WIND'', ''MECHANICAL'', ''STRUCTURAL'', ''FUEL'', ''SMOKE'', ''FOD'', ''FROST'',
      ''EXPOSURE'', ''HYPOTHERMIA'', ''HYPERTHERMIA'', ''CASUALTY'', ''CASUALTIES'', ''OVERHEAT'',
      ''OVEREXERTION'', ''CONGESTION'', ''COLLISION'', ''IMPACT'', ''CONTACT'', ''HAZMAT'',
      ''INCLEMENT'', ''DAMAGED'', ''ENVIRONMENTAL'', ''SURVIVABILITY'', ''VEGETATION'', ''HAZE'',
      ''POISON'', ''TOXIC'', ''FUMES'', ''OBSTACLE'', ''RUNWAY'', ''LANDING'', ''PZ'', ''LZ'',
      ''MARKING'', ''WEAK'', ''UNSECURED'', ''UNSTABLE'', ''CONTAGION'']"

definition HAZARD_STOPWORDS :: "string list" where
  "HAZARD_STOPWORDS =
     [''THE'', ''AND'', ''OF'', ''IN'', ''ON'', ''AT'', ''TO'', ''A'', ''AN'', ''WITH'', ''BY'', ''FOR'']"

text \<open>The lines of one row: stripped, the blank ones dropped.\<close>

definition row_lines :: "string \<Rightarrow> string list" where
  "row_lines row_content =
     map py_strip (filter (\<lambda>line. py_strip line \<noteq> []) (split_on (CHR 0x0A) row_content))"

subsection \<open>The per-line state machine\<close>

text \<open>
  \<^verbatim>\<open>re.match(r'^([MHLE]+|[0-5])$', line) and len(line) <= 3\<close>, on a stripped line (which
  has no newline at its end, so \<^verbatim>\<open>$\<close> is the end of the line).
\<close>

definition is_risk_token :: "string \<Rightarrow> bool" where
  "is_risk_token line \<longleftrightarrow>
     ((line \<noteq> [] \<and> list_all (\<lambda>c. c \<in> set ''MHLE'') line)
      \<or> (length line = 1 \<and> list_all (\<lambda>c. c \<in> set ''012345'') line))
     \<and> length line \<le> 3"

datatype row_section = Subtask | Controls | How | Who

record scan =
  subtask_lines :: "string list"
  controls_lines :: "string list"
  how_lines :: "string list"
  who_lines :: "string list"
  current_section :: row_section
  initial_risk :: "string option"
  residual_risk :: "string option"
  found_first_risk :: bool

definition scan_start :: scan where
  "scan_start =
     \<lparr> subtask_lines = [], controls_lines = [], how_lines = [], who_lines = [],
       current_section = Subtask, initial_risk = None, residual_risk = None,
       found_first_risk = False \<rparr>"

text \<open>One pass of the loop body; the flag is the \<^verbatim>\<open>break\<close>.\<close>

definition scan_line :: "scan \<Rightarrow> string \<Rightarrow> scan \<times> bool" where
  "scan_line st raw_line =
     (let line = py_strip raw_line in
      if line = [] then (st, False)
      else if is_risk_token line then
        (if \<not> found_first_risk st
         then (st\<lparr>initial_risk := Some line, found_first_risk := True,
                  current_section := Controls\<rparr>, False)
         else (st\<lparr>residual_risk := Some line\<rparr>, True))
      else if startswith line ''How:'' then
        (let how_content = py_strip (drop 4 line) in
         (st\<lparr>current_section := How,
             how_lines := (if how_content \<noteq> [] then how_lines st @ [how_content]
                           else how_lines st)\<rparr>, False))
      else if startswith line ''Who:'' then
        (let who_content = py_strip (drop 4 line) in
         (st\<lparr>current_section := Who,
             who_lines := (if who_content \<noteq> [] then who_lines st @ [who_content]
                           else who_lines st)\<rparr>, False))
      else if startswith line ''-'' \<and> current_section st \<in> set [Controls, Subtask] then
        (st\<lparr>current_section := Controls, controls_lines := controls_lines st @ [line]\<rparr>, False)
      else if current_section st = Subtask then
        (st\<lparr>subtask_lines := subtask_lines st @ [line]\<rparr>, False)
      else if current_section st = Controls then
        (st\<lparr>controls_lines := controls_lines st @ [line]\<rparr>, False)
      else if current_section st = How then
        (st\<lparr>how_lines := how_lines st @ [line]\<rparr>, False)
      else
        (st\<lparr>who_lines := who_lines st @ [line]\<rparr>, False))"

fun scan_lines :: "scan \<Rightarrow> string list \<Rightarrow> scan" where
  "scan_lines st [] = st"
| "scan_lines st (line # rest) =
     (case scan_line st line of (st', stop) \<Rightarrow> if stop then st' else scan_lines st' rest)"

subsection \<open>Subtask and hazard\<close>

definition matched_keyword :: "string \<Rightarrow> string option" where
  "matched_keyword line =
     find (\<lambda>keyword. keyword \<in> set (py_split (py_upper line))) COMMON_HAZARD_PREFIXES"

text \<open>
  The loop over the lines that looks for the first hazard keyword: the index of the line
  the hazard text starts at. (The source takes the keyword from a set, in no fixed order;
  only whether there is one, and whether it is one of the two skipped on the first line,
  reaches the result.)
\<close>

fun hazard_start :: "nat \<Rightarrow> string list \<Rightarrow> nat option" where
  "hazard_start idx [] = None"
| "hazard_start idx (line # rest) =
     (case matched_keyword line of
        None \<Rightarrow> hazard_start (Suc idx) rest
      | Some matched \<Rightarrow>
          if idx = 0 \<and> matched \<in> set [''EVACUATION'', ''MEDICAL'']
          then hazard_start (Suc idx) rest
          else Some idx)"

definition hazard_cues :: "string list" where
  "hazard_cues =
     [''HAZARD'', ''INJURY'', ''CASUALTY'', ''FAILURE'', ''FIRE'', ''ROLL'', ''ACCIDENT'',
      ''DAMAGE'', ''LOSS'', ''PZ'', ''DZ'', ''LZ'', ''MARK'', ''ACCOUNT'', ''WEATHER'',
      ''HELICOPTER'', ''AIRCRAFT'', ''SLING'', ''CARGO'']"

text \<open>The split of the lines of the subtask column into subtask lines and hazard lines.\<close>

definition split_by_category :: "string list \<Rightarrow> string list \<times> string list" where
  "split_by_category lines =
     (if 2 \<le> length lines then
        (if list_ex (\<lambda>cat. contains (py_upper (hd lines)) cat)
              [''RANGE EXECUTION'', ''MOVEMENT'', ''ENVIRONMENTAL'', ''TRAINING'']
         then (take 1 lines, drop 1 lines)
         else (case hazard_start 0 lines of
                 None \<Rightarrow> (lines, [])
               | Some idx \<Rightarrow> (if 0 < idx then take idx lines else [], drop idx lines)))
      else (lines, []))"

definition split_by_length :: "string list \<times> string list \<Rightarrow> string list \<times> string list" where
  "split_by_length sh =
     (case sh of (lines, hazard_lines) \<Rightarrow>
        if lines \<noteq> [] \<and> hazard_lines = [] \<and> 1 < length lines then
          (let second_line_words = length (py_split (lines ! 1));
               keep = (if second_line_words \<noteq> 0 \<and> second_line_words \<le> 3 \<and> 2 < length lines
                          \<and> \<not> list_ex (\<lambda>cue. contains (py_upper (join '' '' (drop 1 lines))) cue)
                                 hazard_cues
                       then 2 else 1)
           in if keep < length lines then (take keep lines, drop keep lines)
              else (lines, hazard_lines))
        else (lines, hazard_lines))"

definition split_subtask_lines :: "string list \<Rightarrow> string list \<times> string list" where
  "split_subtask_lines lines =
     (if lines \<noteq> [] then split_by_length (split_by_category lines) else (lines, []))"

definition main_categories :: "string list" where
  "main_categories =
     [''RANGE EXECUTION'', ''RANGE OPERATIONS'', ''MOVEMENT TO'', ''MOVEMENT'',
      ''VEHICLE MOVEMENT'', ''AMMUNITION'', ''ENVIRONMENTAL'', ''MEDICAL'',
      ''TRAINING'', ''FIRE CONTROL'', ''WEAPONS HANDLING'', ''COMMUNICATIONS'',
      ''NIGHT OPERATIONS'', ''WEATHER'']"

text \<open>
  \<^verbatim>\<open>re.split(r"\s{2,}|\s[-/:]\s|:\s|/", text, maxsplit=1)\<close>: the text before and after
  the leftmost separator, the alternatives tried in this order at each position.
\<close>

fun split_separator :: "string \<Rightarrow> (string \<times> string) option" where
  "split_separator [] = None"
| "split_separator (c # cs) =
     (if py_isspace c \<and> (case cs of d # _ \<Rightarrow> py_isspace d | [] \<Rightarrow> False)
        then Some ([], dropWhile py_isspace cs)
      else if py_isspace c
              \<and> (case cs of d # e # _ \<Rightarrow> d \<in> set ''-/:'' \<and> py_isspace e | _ \<Rightarrow> False)
        then Some ([], drop 2 cs)
      else if c = CHR '':'' \<and> (case cs of d # _ \<Rightarrow> py_isspace d | [] \<Rightarrow> False)
        then Some ([], drop 1 cs)
      else if c = CHR ''/'' then Some ([], cs)
      else map_option (\<lambda>(front, rest). (c # front, rest)) (split_separator cs))"

text \<open>The name and the hazard a row gets from its own lines.\<close>

definition name_and_hazard :: "string list \<times> string list \<Rightarrow> string option \<times> string option" where
  "name_and_hazard sh =
     (case sh of (lines, hazard_lines) \<Rightarrow>
        let subtask_text = (if lines \<noteq> [] then Some (join '' '' lines) else None);
            hazard_text = (if hazard_lines \<noteq> [] then Some (join '' '' hazard_lines) else None)
        in if nonempty subtask_text \<and> \<not> nonempty hazard_text then
             (let text = the subtask_text in
              case find (\<lambda>category. startswith (py_upper text) category) main_categories of
                Some category \<Rightarrow>
                  (let name_fragment = py_strip (take (length category) text);
                       remainder =
                         py_strip (lstrip_chars ''-:;/,'' (py_strip (drop (length category) text)))
                   in (Some (if name_fragment \<noteq> [] then name_fragment else text),
                       if remainder \<noteq> [] then Some remainder else None))
              | None \<Rightarrow>
                  (case split_separator text of
                     Some (front, rest) \<Rightarrow>
                       (Some (py_strip front),
                        if py_strip rest \<noteq> [] then Some (py_strip rest) else None)
                   | None \<Rightarrow> (Some text, None)))
           else (subtask_text, hazard_text))"

text \<open>
  The repair: a name that starts with a hazard word is folded into the hazard, and the row
  takes the previous row's name.
\<close>

definition repair :: "string option \<Rightarrow> string option \<times> string option \<Rightarrow> string option \<times> string option" where
  "repair prev_subtask_name nh =
     (case nh of (row_name, row_hazard) \<Rightarrow>
        if nonempty row_name \<and> nonempty row_hazard \<and> nonempty prev_subtask_name then
          (let tokens = filter (\<lambda>tok. tok \<noteq> [])
                          (split_runs (\<lambda>c. py_isspace c \<or> c \<in> set '',/'') (py_upper (the row_name)));
               leading_token = (case tokens of [] \<Rightarrow> [] | tok # _ \<Rightarrow> tok)
           in if leading_token \<in> set COMMON_HAZARD_PREFIXES
                 \<and> leading_token \<notin> set HAZARD_STOPWORDS then
                (let candidate_subtask = py_strip (the row_name);
                     hazard_body = py_strip (the row_hazard);
                     hazard_words = py_split (sub_runs (\<lambda>c. c \<in> set '',/'') '' '' hazard_body);
                     subtask_words = py_split candidate_subtask;
                     should_prepend =
                       (hazard_body = [] \<or> length hazard_words \<le> 2
                        \<or> (subtask_words \<noteq> []
                            \<and> py_upper (last subtask_words) \<in> set [''OF'', ''TO'', ''AND'', ''THE'']));
                     combined_hazard =
                       py_strip (collapse_ws
                         (if should_prepend then py_strip (candidate_subtask @ '' '' @ hazard_body)
                          else hazard_body))
                 in if combined_hazard \<noteq> [] then (prev_subtask_name, Some combined_hazard)
                    else (row_name, row_hazard))
              else (row_name, row_hazard))
        else (row_name, row_hazard))"

subsection \<open>Controls, how and who\<close>

definition is_bullet_point :: "string \<Rightarrow> bool" where
  "is_bullet_point line \<longleftrightarrow> startswith line ''-'' \<or> startswith line ''*''"

definition flush_paragraph :: "string list \<Rightarrow> string list \<Rightarrow> string list" where
  "flush_paragraph current_paragraph cleaned_controls =
     (if current_paragraph \<noteq> [] \<and> py_strip (join '' '' current_paragraph) \<noteq> []
      then cleaned_controls @ [py_strip (join '' '' current_paragraph)]
      else cleaned_controls)"

definition starts_new_sentence :: "string list \<Rightarrow> string \<Rightarrow> bool" where
  "starts_new_sentence current_paragraph cleaned_line \<longleftrightarrow>
     current_paragraph \<noteq> [] \<and>
     (let last_line = py_lower (last current_paragraph);
          current_line_lower = py_lower cleaned_line;
          prev_is_bullet = is_bullet_point (hd current_paragraph)
      in (is_bullet_point cleaned_line \<and> \<not> prev_is_bullet)
         \<or> (is_bullet_point cleaned_line \<and> prev_is_bullet)
         \<or> ((endswith last_line ''.'' \<or> endswith last_line ''!'' \<or> endswith last_line ''?'')
             \<and> is_upper_letter (hd cleaned_line)
             \<and> \<not> list_ex (startswith current_line_lower)
                   [''and '', ''or '', ''but '', ''so '', ''yet '', ''for '', ''nor '']))"

fun group_controls :: "string list \<Rightarrow> string list \<Rightarrow> string list \<Rightarrow> string list" where
  "group_controls current_paragraph cleaned_controls [] =
     flush_paragraph current_paragraph cleaned_controls"
| "group_controls current_paragraph cleaned_controls (line # rest) =
     (let cleaned_line = collapse_ws (py_strip line) in
      if cleaned_line = [] then group_controls current_paragraph cleaned_controls rest
      else if starts_new_sentence current_paragraph cleaned_line
      then group_controls [cleaned_line] (flush_paragraph current_paragraph cleaned_controls) rest
      else group_controls (current_paragraph @ [cleaned_line]) cleaned_controls rest)"

definition joined_value :: "string list \<Rightarrow> string list" where
  "joined_value lines =
     (if lines \<noteq> [] \<and> py_strip (collapse_ws (join '' '' lines)) \<noteq> []
      then [py_strip (collapse_ws (join '' '' lines))]
      else [])"

subsection \<open>One row, and the loop over the rows\<close>

text \<open>
  The hazard text that was captured under the subtask column: the row takes the previous
  row's name.
\<close>

definition reuse_previous :: "string option \<Rightarrow> string option \<times> string option \<Rightarrow> string option \<times> string option" where
  "reuse_previous prev_subtask_name nh =
     (case nh of (row_name, row_hazard) \<Rightarrow>
        if nonempty prev_subtask_name \<and> nonempty row_name \<and> \<not> nonempty row_hazard
           \<and> py_strip (the row_name) \<noteq> []
        then (prev_subtask_name, Some (py_strip (the row_name)))
        else (row_name, row_hazard))"

text \<open>The name the row has from its own text, before the previous row's name is looked at.\<close>

definition explicit_name :: "string list \<Rightarrow> string option" where
  "explicit_name lines =
     fst (name_and_hazard (split_subtask_lines (subtask_lines (scan_lines scan_start lines))))"

text \<open>
  The row, from its lines and \<open>last_subtask_name\<close> (which is also \<open>prev_subtask_name\<close>:
  the loop copies the one into the other at the start of each pass).
\<close>

definition heuristic_row :: "string option \<Rightarrow> string list \<Rightarrow> subtask_row" where
  "heuristic_row last_subtask_name lines =
     (let st = scan_lines scan_start lines;
          nh = reuse_previous last_subtask_name
                 (repair last_subtask_name
                    (name_and_hazard (split_subtask_lines (subtask_lines st))));
          current_subtask = fst nh
      in \<lparr> name = (if nonempty current_subtask \<and> py_strip (the current_subtask) \<noteq> []
                   then current_subtask
                   else if nonempty last_subtask_name then last_subtask_name
                   else current_subtask),
           hazard = snd nh,
           initial_risk_level = initial_risk st,
           control = (if controls_lines st \<noteq> [] then group_controls [] [] (controls_lines st) else []),
           how = joined_value (how_lines st),
           who = joined_value (who_lines st),
           residual_risk_level = residual_risk st \<rparr>)"

definition next_subtask_name :: "string option \<Rightarrow> string list \<Rightarrow> string option" where
  "next_subtask_name last_subtask_name lines =
     (let current_subtask =
            fst (reuse_previous last_subtask_name
                   (repair last_subtask_name
                      (name_and_hazard
                         (split_subtask_lines (subtask_lines (scan_lines scan_start lines))))))
      in if nonempty current_subtask \<and> py_strip (the current_subtask) \<noteq> []
         then Some (py_strip (the current_subtask))
         else last_subtask_name)"

text \<open>
  The loop of \<^verbatim>\<open>extract_subtask_rows\<close> over \<open>row_matches\<close>, the row texts that
  \<^verbatim>\<open>re.findall\<close> cut out of the table section. A blank row is skipped.
\<close>

fun extract_rows :: "string option \<Rightarrow> string list \<Rightarrow> subtask_row list" where
  "extract_rows last_subtask_name [] = []"
| "extract_rows last_subtask_name (row_content # rest) =
     (if py_strip row_content = [] \<or> row_lines row_content = []
      then extract_rows last_subtask_name rest
      else heuristic_row last_subtask_name (row_lines row_content)
           # extract_rows (next_subtask_name last_subtask_name (row_lines row_content)) rest)"

section \<open>Regular expressions\<close>

text \<open>
  The patterns of the heuristic parser are kept as terms and matched the way Python's
  \<^verbatim>\<open>re\<close> matches them: by backtracking, the alternatives of a choice in their order, a
  greedy repetition from the longest run down and a lazy one from the shortest run up, the
  search from the leftmost start. \<open>rmatch r cont st\<close> is the first success of the
  continuation \<open>cont\<close> after a match of \<open>r\<close> at \<open>st\<close>, a position being the character
  before it (for \<^verbatim>\<open>^\<close> and \<^verbatim>\<open>\b\<close>) and the text from it on. Only single characters are
  repeated in these patterns, so \<open>Many\<close> takes a character class. With
  \<^verbatim>\<open>re.IGNORECASE\<close> a letter of a pattern is the class of its two cases.
\<close>

datatype cls = Of "char list" | Not_of "char list"

fun in_cls :: "cls \<Rightarrow> char \<Rightarrow> bool" where
  "in_cls (Of cs) c \<longleftrightarrow> c \<in> set cs"
| "in_cls (Not_of cs) c \<longleftrightarrow> c \<notin> set cs"

datatype rx = Chr cls | Eps | Seq rx rx | Alt rx rx | Many cls nat bool | Look rx | Bol | Eos | Wordb

type_synonym pos = "char option \<times> string"

definition is_word_char :: "char \<Rightarrow> bool" where
  "is_word_char c \<longleftrightarrow> is_digit c \<or> is_upper_letter c \<or> is_lower_letter c \<or> c = CHR ''_''"

definition at_boundary :: "pos \<Rightarrow> bool" where
  "at_boundary st \<longleftrightarrow>
     (case fst st of None \<Rightarrow> False | Some c \<Rightarrow> is_word_char c)
     \<noteq> (case snd st of [] \<Rightarrow> False | c # _ \<Rightarrow> is_word_char c)"

definition advance :: "nat \<Rightarrow> pos \<Rightarrow> pos" where
  "advance j st = (if j = 0 then st else (Some (snd st ! (j - 1)), drop j (snd st)))"

function try_down :: "(nat \<Rightarrow> 'a option) \<Rightarrow> nat \<Rightarrow> nat \<Rightarrow> 'a option" where
  "try_down f lo j =
     (if j < lo then None
      else case f j of Some r \<Rightarrow> Some r
           | None \<Rightarrow> if j = 0 then None else try_down f lo (j - 1))"
  by pat_completeness auto
termination
  by (relation "measure (\<lambda>(f, lo, j). j)") auto

function try_up :: "(nat \<Rightarrow> 'a option) \<Rightarrow> nat \<Rightarrow> nat \<Rightarrow> 'a option" where
  "try_up f j hi =
     (if hi < j then None
      else case f j of Some r \<Rightarrow> Some r | None \<Rightarrow> try_up f (Suc j) hi)"
  by pat_completeness auto
termination
  by (relation "measure (\<lambda>(f, j, hi). Suc hi - j)") auto

declare try_down.simps [simp del] try_up.simps [simp del]

text \<open>Whether a pattern matches at a position at all: what a lookahead asks.\<close>

primrec rtest :: "rx \<Rightarrow> (pos \<Rightarrow> bool) \<Rightarrow> pos \<Rightarrow> bool" where
  "rtest (Chr k) cont st =
     (case snd st of [] \<Rightarrow> False | c # t \<Rightarrow> in_cls k c \<and> cont (Some c, t))"
| "rtest Eps cont st = cont st"
| "rtest (Seq a b) cont st = rtest a (rtest b cont) st"
| "rtest (Alt a b) cont st = (rtest a cont st \<or> rtest b cont st)"
| "rtest (Many k lo greedy) cont st =
     list_ex (\<lambda>j. cont (advance j st)) [lo..<Suc (length (takeWhile (in_cls k) (snd st)))]"
| "rtest (Look a) cont st = (rtest a (\<lambda>_. True) st \<and> cont st)"
| "rtest Bol cont st = (fst st = None \<and> cont st)"
| "rtest Eos cont st = (snd st = [] \<and> cont st)"
| "rtest Wordb cont st = (at_boundary st \<and> cont st)"

primrec rmatch :: "rx \<Rightarrow> (pos \<Rightarrow> 'a option) \<Rightarrow> pos \<Rightarrow> 'a option" where
  "rmatch (Chr k) cont st =
     (case snd st of [] \<Rightarrow> None | c # t \<Rightarrow> if in_cls k c then cont (Some c, t) else None)"
| "rmatch Eps cont st = cont st"
| "rmatch (Seq a b) cont st = rmatch a (rmatch b cont) st"
| "rmatch (Alt a b) cont st =
     (case rmatch a cont st of Some r \<Rightarrow> Some r | None \<Rightarrow> rmatch b cont st)"
| "rmatch (Many k lo greedy) cont st =
     (if greedy
      then try_down (\<lambda>j. cont (advance j st)) lo (length (takeWhile (in_cls k) (snd st)))
      else try_up (\<lambda>j. cont (advance j st)) lo (length (takeWhile (in_cls k) (snd st))))"
| "rmatch (Look a) cont st = (if rtest a (\<lambda>_. True) st then cont st else None)"
| "rmatch Bol cont st = (if fst st = None then cont st else None)"
| "rmatch Eos cont st = (if snd st = [] then cont st else None)"
| "rmatch Wordb cont st = (if at_boundary st then cont st else None)"

text \<open>
  \<^verbatim>\<open>re.search\<close>: the leftmost position where the matcher succeeds, with the text that
  was skipped before it.
\<close>

fun rsearch :: "(pos \<Rightarrow> 'a option) \<Rightarrow> string \<Rightarrow> pos \<Rightarrow> (string \<times> 'a) option" where
  "rsearch m skipped (p, []) = map_option (Pair (rev skipped)) (m (p, []))"
| "rsearch m skipped (p, c # t) =
     (case m (p, c # t) of
        Some r \<Rightarrow> Some (rev skipped, r)
      | None \<Rightarrow> rsearch m (c # skipped) (Some c, t))"

text \<open>The text between two positions, and a pattern of the shape \<^verbatim>\<open>pre(grp)post\<close>.\<close>

definition group_text :: "pos \<Rightarrow> pos \<Rightarrow> string" where
  "group_text a b = take (length (snd a) - length (snd b)) (snd a)"

definition match_group :: "rx \<Rightarrow> rx \<Rightarrow> rx \<Rightarrow> pos \<Rightarrow> (string \<times> pos) option" where
  "match_group pre grp post st =
     rmatch pre (\<lambda>a. rmatch grp (\<lambda>b. rmatch post (\<lambda>e. Some (group_text a b, e)) b) a) st"

text \<open>\<^verbatim>\<open>m = re.search(pattern, text)\<close>: \<^verbatim>\<open>(text[:m.start()], m.group(1), text[m.end():])\<close>.\<close>

definition search_group :: "rx \<Rightarrow> rx \<Rightarrow> rx \<Rightarrow> string \<Rightarrow> (string \<times> string \<times> string) option" where
  "search_group pre grp post text =
     map_option (\<lambda>(skipped, g, e). (skipped, g, snd e))
       (rsearch (match_group pre grp post) [] (None, text))"

definition group1 :: "rx \<Rightarrow> rx \<Rightarrow> rx \<Rightarrow> string \<Rightarrow> string option" where
  "group1 pre grp post text = map_option (\<lambda>(skipped, g, rest). g) (search_group pre grp post text)"

text \<open>\<^verbatim>\<open>re.search(pattern, text)\<close> with no group: whether there is a match.\<close>

definition found :: "rx \<Rightarrow> string \<Rightarrow> bool" where
  "found r text \<longleftrightarrow> search_group r Eps Eps text \<noteq> None"

text \<open>
  \<^verbatim>\<open>re.sub(pattern, "", text)\<close> for a pattern that matches no empty text: every match,
  from the left, taken out.
\<close>

function remove_matches :: "rx \<Rightarrow> pos \<Rightarrow> string" where
  "remove_matches r st =
     (case rsearch (rmatch r Some) [] st of
        None \<Rightarrow> snd st
      | Some (skipped, e) \<Rightarrow>
          if length (snd e) < length (snd st) then skipped @ remove_matches r e else snd st)"
  by pat_completeness auto
termination
  by (relation "measure (\<lambda>(r, st). length (snd st))") auto

declare remove_matches.simps [simp del]

text \<open>
  \<^verbatim>\<open>re.findall(pattern, text)\<close> for a pattern \<^verbatim>\<open>pre(grp)post\<close> that matches no empty
  text: the group of every match, from the left.
\<close>

function findall :: "rx \<Rightarrow> rx \<Rightarrow> rx \<Rightarrow> pos \<Rightarrow> string list" where
  "findall pre grp post st =
     (case rsearch (match_group pre grp post) [] st of
        None \<Rightarrow> []
      | Some (skipped, g, e) \<Rightarrow>
          if length (snd e) < length (snd st) then g # findall pre grp post e else [g])"
  by pat_completeness auto
termination
  by (relation "measure (\<lambda>(pre, grp, post, st). length (snd st))") auto

declare findall.simps [simp del]

text \<open>The pieces the patterns are made of.\<close>

definition lit :: "string \<Rightarrow> rx" where
  "lit s = foldr (\<lambda>c r. Seq (Chr (Of [c])) r) s Eps"

definition nocase :: "string \<Rightarrow> rx" where
  "nocase s = foldr (\<lambda>c r. Seq (Chr (Of [lower_char c, upper_char c])) r) s Eps"

definition seqs :: "rx list \<Rightarrow> rx" where
  "seqs rs = foldr Seq rs Eps"

fun alts :: "rx list \<Rightarrow> rx" where
  "alts [] = Chr (Of [])"
| "alts [r] = r"
| "alts (r # rs) = Alt r (alts rs)"

definition opt :: "rx \<Rightarrow> rx" where
  "opt r = Alt r Eps"

definition ws :: cls where
  "ws = Of [CHR 0x09, CHR 0x0A, CHR 0x0B, CHR 0x0C, CHR 0x0D,
            CHR 0x1C, CHR 0x1D, CHR 0x1E, CHR 0x1F, CHR 0x20]"

definition anychar :: cls where
  "anychar = Not_of []"

definition digits :: cls where
  "digits = Of ''0123456789''"

definition ws_star :: rx where
  "ws_star = Many ws 0 True"

definition ws_plus :: rx where
  "ws_plus = Many ws 1 True"

definition newline :: rx where
  "newline = Chr (Of [CHR 0x0A])"

text \<open>
  \<^verbatim>\<open>str.splitlines\<close>: the lines between the line breaks of ASCII text (\<^verbatim>\<open>\r\n\<close> is
  one break), no empty line for a break at the end.
\<close>

definition line_breaks :: "char list" where
  "line_breaks = [CHR 0x0A, CHR 0x0D, CHR 0x0B, CHR 0x0C, CHR 0x1C, CHR 0x1D, CHR 0x1E]"

fun splitlines_from :: "string \<Rightarrow> string \<Rightarrow> string list" where
  "splitlines_from cur [] = (if cur = [] then [] else [rev cur])"
| "splitlines_from cur [c] = (if c \<in> set line_breaks then [rev cur] else [rev (c # cur)])"
| "splitlines_from cur (c # d # cs) =
     (if c = CHR 0x0D \<and> d = CHR 0x0A then rev cur # splitlines_from [] cs
      else if c \<in> set line_breaks then rev cur # splitlines_from [] (d # cs)
      else splitlines_from (c # cur) (d # cs))"

definition splitlines :: "string \<Rightarrow> string list" where
  "splitlines s = splitlines_from [] s"

text \<open>The lines of a block that are not blank, stripped.\<close>

definition stripped_lines :: "string \<Rightarrow> string list" where
  "stripped_lines s = map py_strip (filter (\<lambda>line. py_strip line \<noteq> []) (splitlines s))"

section \<open>The heuristic path: the fields of the text\<close>

subsection \<open>The lettered fields of the preparer\<close>

definition a_to_i :: cls where
  "a_to_i = Of ''abcdefghiABCDEFGHI''"

text \<open>\<^verbatim>\<open>(?:^|\n)\s*{letter}\.\s*\<close>, \<^verbatim>\<open>(?:^|\n)\s*[a-i]\.\s\<close>, \<^verbatim>\<open>\s{2,}[a-i]\.\s\<close>
  and \<^verbatim>\<open>(?:^|\n)\s*\d+\.\s\<close>.\<close>

definition label_pattern :: "char \<Rightarrow> rx" where
  "label_pattern tag_letter =
     seqs [alts [Bol, newline], ws_star, nocase [tag_letter], lit ''.'', ws_star]"

definition newline_label :: rx where
  "newline_label = seqs [alts [Bol, newline], ws_star, Chr a_to_i, lit ''.'', Chr ws]"

definition inline_label :: rx where
  "inline_label = seqs [Many ws 2 True, Chr a_to_i, lit ''.'', Chr ws]"

definition numbered_section :: rx where
  "numbered_section = seqs [alts [Bol, newline], ws_star, Many digits 1 True, lit ''.'', Chr ws]"

text \<open>\<^verbatim>\<open>m.start()\<close> of a search, where there is a match.\<close>

definition match_start :: "rx \<Rightarrow> string \<Rightarrow> nat list" where
  "match_start r text =
     (case search_group r Eps Eps text of None \<Rightarrow> [] | Some (skipped, g, rest) \<Rightarrow> [length skipped])"

definition instruction_patterns :: "rx list" where
  "instruction_patterns =
     [seqs [lit ''(1)'', ws_star, nocase ''Identify the hazards'', Many anychar 0 False,
            nocase ''equal to numbered items on form)''],
      seqs [nocase ''Five steps of Risk Management:'', Many anychar 0 False,
            nocase ''equal to numbered items on form)'']]"

text \<open>\<^verbatim>\<open>(?:\s*\([^)]*\))?\s*[:\-]?\s*\<close>, the end of every descriptor pattern.\<close>

definition descriptor_tail :: rx where
  "descriptor_tail =
     seqs [opt (seqs [ws_star, lit ''('', Many (Not_of '')'') 0 True, lit '')'']),
           ws_star, opt (Chr (Of '':-'')), ws_star]"

definition descriptor_patterns :: "(char \<times> rx) list" where
  "descriptor_patterns =
     [(CHR ''a'', seqs [Bol, nocase ''NAME'', descriptor_tail]),
      (CHR ''b'', seqs [Bol, nocase ''RANK'', ws_star, opt (lit ''/''), ws_star, nocase ''GRADE'',
                        descriptor_tail]),
      (CHR ''c'', seqs [Bol, nocase ''DUTY'', ws_star, nocase ''TITLE'', ws_star, opt (lit ''/''),
                        ws_star, nocase ''POSITION'', descriptor_tail]),
      (CHR ''d'', seqs [Bol, nocase ''UNIT'', descriptor_tail]),
      (CHR ''e'', seqs [Bol, nocase ''WORK'', ws_star, nocase ''EMAIL'', descriptor_tail]),
      (CHR ''f'', seqs [Bol, nocase ''TELEPHONE'', descriptor_tail]),
      (CHR ''g'', seqs [Bol, nocase ''UIC'', ws_star, opt (lit ''/''), ws_star, nocase ''CIN'',
                        descriptor_tail]),
      (CHR ''h'', seqs [Bol, nocase ''TRAINING'', ws_star, nocase ''SUPPORT/LESSON'', ws_star,
                        nocase ''PLAN'', ws_star, nocase ''OR'', ws_star, nocase ''OPORD'',
                        descriptor_tail]),
      (CHR ''i'', seqs [Bol, nocase ''SIGNATURE'', ws_star, nocase ''OF'', ws_star,
                        nocase ''PREPARER'', descriptor_tail])]"

text \<open>
  \<^verbatim>\<open>re.sub(descriptor_pattern, "", line)\<close>: the pattern starts with \<^verbatim>\<open>^\<close>, so only a
  match at the start of the line is taken out.
\<close>

definition strip_descriptor :: "rx \<Rightarrow> string \<Rightarrow> string" where
  "strip_descriptor r line = (case rmatch r Some (None, line) of None \<Rightarrow> line | Some e \<Rightarrow> snd e)"

text \<open>The window after the label, up to the next label or numbered section.\<close>

definition label_window :: "char \<Rightarrow> string \<Rightarrow> string option" where
  "label_window tag_letter text =
     (case rsearch (rmatch (label_pattern tag_letter) Some) [] (None, text) of
        None \<Rightarrow> None
      | Some (skipped, e) \<Rightarrow>
          (let remainder = snd e in
           if remainder = [] then None
           else
             let boundaries = match_start newline_label remainder
                              @ match_start inline_label remainder
                              @ match_start numbered_section remainder;
                 cutoff = (if boundaries = [] then length remainder else Min (set boundaries));
                 window = py_strip (take cutoff remainder)
             in if window = [] then None
                else
                  let cleaned = foldl (\<lambda>w r. py_strip (remove_matches r (None, w))) window
                                  instruction_patterns
                  in if cleaned = [] then None else Some cleaned))"

text \<open>The lines of the window, the caption taken off the first one.\<close>

definition value_lines :: "char \<Rightarrow> string list \<Rightarrow> string list" where
  "value_lines tag_letter lines =
     (let lines1 =
            (case (map_of descriptor_patterns (lower_char tag_letter), lines) of
               (Some r, first # rest) \<Rightarrow>
                 (let cleaned_first = py_strip (strip_descriptor r first)
                  in if cleaned_first \<noteq> [] then cleaned_first # rest else rest)
             | _ \<Rightarrow> lines);
          lines2 =
            (case lines1 of
               first # rest \<Rightarrow> if first \<noteq> [] then lstrip_chars ''):- '' first # rest else lines1
             | [] \<Rightarrow> [])
      in filter (\<lambda>line. line \<noteq> []) lines2)"

definition value_after :: "char \<Rightarrow> string \<Rightarrow> string option" where
  "value_after tag_letter text =
     (case label_window tag_letter text of
        None \<Rightarrow> None
      | Some window \<Rightarrow>
          (let lines = stripped_lines window in
           if lines = [] then None
           else
             let kept = value_lines tag_letter lines in
             if kept = [] then None
             else
               let value_text = py_strip (collapse_ws (join '' '' kept))
               in if value_text = [] then None else Some value_text))"

definition extract_prepared_by_fields :: "string \<Rightarrow> preparer" where
  "extract_prepared_by_fields text =
     \<lparr> name_last_first_middle_initial = value_after (CHR ''a'') text,
       rank_grade = value_after (CHR ''b'') text,
       duty_title_position = value_after (CHR ''c'') text,
       unit = value_after (CHR ''d'') text,
       work_email = value_after (CHR ''e'') text,
       telephone = value_after (CHR ''f'') text,
       uic_cin = value_after (CHR ''g'') text,
       training_support_or_lesson_plan_or_opord = value_after (CHR ''h'') text,
       signature_of_preparer =
         (case value_after (CHR ''i'') text of
            None \<Rightarrow> None
          | Some sig \<Rightarrow>
              if list_ex (contains (py_lower sig))
                   [''five steps'', ''risk management'', ''identify the hazards'',
                    ''assess the hazards'']
              then None else Some sig) \<rparr>"

subsection \<open>The table\<close>

text \<open>
  \<^verbatim>\<open>9\.\s*RESIDUAL.*?RISK LEVEL.*?\n(.*?)(?=\n10\.\s|\Z)\<close> and the row pattern
  \<^verbatim>\<open>(?:^|\n)\+\s*\n-\s*\n(.*?)(?=(?:\n\+\s*\n-\s*\n)|\Z)\<close>.
\<close>

definition table_section :: "string \<Rightarrow> string option" where
  "table_section text =
     group1 (seqs [lit ''9.'', ws_star, nocase ''RESIDUAL'', Many anychar 0 False,
                   nocase ''RISK LEVEL'', Many anychar 0 False, newline])
            (Many anychar 0 False)
            (Look (alts [seqs [newline, lit ''10.'', Chr ws], Eos]))
            text"

definition row_separator :: rx where
  "row_separator = seqs [lit ''+'', ws_star, newline, lit ''-'', ws_star, newline]"

definition row_matches_of :: "string \<Rightarrow> string list" where
  "row_matches_of data_section =
     findall (seqs [alts [Bol, newline], row_separator]) (Many anychar 0 False)
             (Look (alts [seqs [newline, row_separator], Eos]))
             (None, data_section)"

definition extract_subtask_rows :: "string \<Rightarrow> subtask_row list" where
  "extract_subtask_rows text =
     (case table_section text of
        None \<Rightarrow> []
      | Some data_section \<Rightarrow> extract_rows None (row_matches_of data_section))"

subsection \<open>The overall residual risk\<close>

definition risk_options :: "string list" where
  "risk_options = [''EXTREMELY HIGH'', ''HIGH'', ''MEDIUM'', ''LOW'']"

text \<open>\<^verbatim>\<open>10\.\s*OVERALL\s+RESIDUAL\s+RISK LEVEL.*?:\s*(.+?)(?=\n11\.\s|\n12\.\s|\Z)\<close>.\<close>

definition overall_block :: "string \<Rightarrow> string option" where
  "overall_block text =
     group1 (seqs [lit ''10.'', ws_star, nocase ''OVERALL'', ws_plus, nocase ''RESIDUAL'', ws_plus,
                   nocase ''RISK LEVEL'', Many anychar 0 False, lit '':'', ws_star])
            (Many anychar 1 False)
            (Look (alts [seqs [newline, lit ''11.'', Chr ws], seqs [newline, lit ''12.'', Chr ws],
                         Eos]))
            text"

definition option_pattern :: rx where
  "option_pattern =
     alts [seqs [nocase ''EXTREMELY'', ws_plus, nocase ''HIGH''], nocase ''HIGH'', nocase ''MEDIUM'',
           nocase ''LOW'']"

text \<open>
  One line of several: the option it names, where the rest of the line holds a mark
  (\<^verbatim>\<open>[X1]\<close>) or one of the words selected, checked, yes.
\<close>

definition line_selects :: "string \<Rightarrow> string option" where
  "line_selects raw_line =
     (case search_group Eps option_pattern Eps raw_line of
        None \<Rightarrow> None
      | Some (front, g, rest) \<Rightarrow>
          (let remainder = py_strip (front @ rest) in
           if found (Chr (Of ''X1'')) remainder then Some (py_upper g)
           else if found (seqs [Wordb, alts [nocase ''SELECTED'', nocase ''CHECKED'', nocase ''YES''],
                                Wordb]) remainder
           then Some (py_upper g)
           else None))"

fun first_selected :: "string list \<Rightarrow> string option" where
  "first_selected [] = None"
| "first_selected (raw_line # rest) =
     (case line_selects raw_line of Some option \<Rightarrow> Some option | None \<Rightarrow> first_selected rest)"

text \<open>\<^verbatim>\<open>re.sub(r"^[*\-\[\]()]+", "", line).strip().upper()\<close>.\<close>

definition bare_option :: "string \<Rightarrow> string" where
  "bare_option line = py_upper (py_strip (dropWhile (\<lambda>c. c \<in> set ''*-[]()'') line))"

definition selected_option :: "string list \<Rightarrow> string option" where
  "selected_option option_lines =
     (case option_lines of
        [] \<Rightarrow> None
      | [only] \<Rightarrow> if py_upper only \<in> set risk_options then Some (py_upper only) else None
      | _ \<Rightarrow>
          (case first_selected option_lines of
             Some option \<Rightarrow> Some option
           | None \<Rightarrow>
               (case filter (\<lambda>line. bare_option line \<in> set risk_options) option_lines of
                  [marked] \<Rightarrow> Some (bare_option marked)
                | _ \<Rightarrow> None)))"

definition explicit_overall :: "string \<Rightarrow> string option" where
  "explicit_overall text =
     (case overall_block text of
        None \<Rightarrow> None
      | Some block \<Rightarrow> selected_option (stripped_lines (py_strip block)))"

subsection \<open>The supervision plan and its narrative\<close>

text \<open>
  \<^verbatim>\<open>pick(r"11\.\s*OVERALL SUPERVISION PLAN.*?:\s*(.+?)(?=\n(?:APPROVE|DISAPPROVE|12\.|14\.|15\.)|\Z)", text)\<close>.
\<close>

definition supervision_plan :: "string \<Rightarrow> string option" where
  "supervision_plan text =
     map_option py_strip
       (group1 (seqs [lit ''11.'', ws_star, nocase ''OVERALL SUPERVISION PLAN'',
                      Many anychar 0 False, lit '':'', ws_star])
               (Many anychar 1 False)
               (Look (alts [seqs [newline, alts [nocase ''APPROVE'', nocase ''DISAPPROVE'',
                                                 lit ''12.'', lit ''14.'', lit ''15.'']],
                            Eos]))
               text)"

text \<open>
  \<^verbatim>\<open>overall\s+residual\s+risk[^.]*?(?:assessed\s+as|assessed\s+to\s+be|is)\s+(...)\<close>,
  the group being
  \<^verbatim>\<open>extremely\s+high|very\s+high|high|medium|moderate|low|very\s+low|negligible\<close>.
\<close>

definition narrative_pre :: rx where
  "narrative_pre =
     seqs [nocase ''overall'', ws_plus, nocase ''residual'', ws_plus, nocase ''risk'',
           Many (Not_of ''.'') 0 False,
           alts [seqs [nocase ''assessed'', ws_plus, nocase ''as''],
                 seqs [nocase ''assessed'', ws_plus, nocase ''to'', ws_plus, nocase ''be''],
                 nocase ''is''],
           ws_plus]"

definition narrative_level :: rx where
  "narrative_level =
     alts [seqs [nocase ''extremely'', ws_plus, nocase ''high''],
           seqs [nocase ''very'', ws_plus, nocase ''high''],
           nocase ''high'', nocase ''medium'', nocase ''moderate'', nocase ''low'',
           seqs [nocase ''very'', ws_plus, nocase ''low''],
           nocase ''negligible'']"

definition risk_map :: "(string \<times> string) list" where
  "risk_map =
     [(''EXTREMELY HIGH'', ''EXTREMELY HIGH''), (''VERY HIGH'', ''HIGH''), (''HIGH'', ''HIGH''),
      (''MEDIUM'', ''MEDIUM''), (''MODERATE'', ''MEDIUM''), (''LOW'', ''LOW''),
      (''VERY LOW'', ''LOW''), (''NEGLIGIBLE'', ''LOW'')]"

text \<open>The level the narrative of the plan gives, where it gives one.\<close>

definition plan_match :: "string option \<Rightarrow> string option" where
  "plan_match plan =
     (if nonempty plan then group1 narrative_pre narrative_level Eps (the plan) else None)"

definition narrative_overall :: "string option \<Rightarrow> string option" where
  "narrative_overall plan =
     (case plan_match plan of
        None \<Rightarrow> None
      | Some g \<Rightarrow>
          (case map_of risk_map (py_upper (py_strip g)) of
             None \<Rightarrow> None
           | Some mapped_level \<Rightarrow> if mapped_level \<noteq> [] then Some mapped_level else None))"

subsection \<open>Approval and disapproval\<close>

text \<open>
  \<^verbatim>\<open>int(value)\<close> of a digit string. CPython refuses a decimal string of more than 4300
  digits (\<^verbatim>\<open>sys.int_info.default_max_str_digits\<close>) with \<^verbatim>\<open>ValueError\<close>.
\<close>

definition py_int :: "string \<Rightarrow> py_error + nat" where
  "py_int s = (if 4300 < length s then Inl ValueError else Inr (nat_of_digits s))"

text \<open>\<^verbatim>\<open>\bAPPROVE:\s*([0-9Xx]+)\<close> and \<^verbatim>\<open>\bDISAPPROVE:\s*([0-9Xx]+)\<close>, ignoring case.\<close>

definition checkbox_match :: "string \<Rightarrow> string \<Rightarrow> string option" where
  "checkbox_match label text =
     group1 (seqs [Wordb, nocase label, ws_star]) (Many (Of ''0123456789Xx'') 1 True) Eps text"

definition parse_checkbox_value :: "string \<Rightarrow> string \<Rightarrow> py_error + nat" where
  "parse_checkbox_value text label =
     (case checkbox_match label text of
        None \<Rightarrow> Inr 0
      | Some g \<Rightarrow>
          (let v = py_strip g in
           if v \<in> set [''1'', ''X'', ''x'', ''checked'', ''yes'', ''true''] then Inr 1
           else if v \<noteq> [] \<and> list_all is_digit v then
             (case py_int v of Inl e \<Rightarrow> Inl e | Inr n \<Rightarrow> if 0 < n then Inr 1 else Inr 0)
           else Inr 0))"

text \<open>
  \<^verbatim>\<open>12\.\s*APPROVAL\s+OR\s+DISAPPROVAL.*?(?=\n13\.\s|\nRISK ASSESSMENT MATRIX|\Z)\<close>: the
  text of the match.
\<close>

definition approval_section :: "string \<Rightarrow> string option" where
  "approval_section text =
     group1 Eps
       (seqs [lit ''12.'', ws_star, nocase ''APPROVAL'', ws_plus, nocase ''OR'', ws_plus,
              nocase ''DISAPPROVAL'', Many anychar 0 False])
       (Look (alts [seqs [newline, lit ''13.'', Chr ws],
                    seqs [newline, nocase ''RISK ASSESSMENT MATRIX''], Eos]))
       text"

text \<open>
  \<^verbatim>\<open>re.match(r"\s*(12\.\s*APPROVAL\s+OR\s+DISAPPROVAL.*|APPROVE|DISAPPROVE)\s*\Z", line)\<close>:
  a line that is a static label.
\<close>

definition static_label :: "string \<Rightarrow> bool" where
  "static_label line \<longleftrightarrow>
     rmatch (seqs [ws_star,
                   alts [seqs [lit ''12.'', ws_star, nocase ''APPROVAL'', ws_plus, nocase ''OR'',
                               ws_plus, nocase ''DISAPPROVAL'', Many (Not_of [CHR 0x0A]) 0 True],
                         nocase ''APPROVE'', nocase ''DISAPPROVE''],
                   ws_star, Eos])
       Some (None, line) \<noteq> None"

definition disapproval_phrases :: "rx list" where
  "disapproval_phrases =
     [seqs [Wordb, nocase ''DISAPPROVED'', Wordb],
      seqs [Wordb, nocase ''DISAPPROVAL'', Wordb],
      seqs [Wordb, nocase ''NOT'', ws_plus, nocase ''APPROVED'', Wordb],
      seqs [Wordb, nocase ''DO'', ws_plus, nocase ''NOT'', ws_plus, nocase ''APPROVE'', Wordb],
      seqs [Wordb, nocase ''WITHHOLD'', ws_plus, nocase ''APPROVAL'', Wordb]]"

text \<open>The two marks, after the fallback that reads the signature block.\<close>

definition infer_approval :: "string \<Rightarrow> nat \<times> nat \<Rightarrow> nat \<times> nat" where
  "infer_approval text marks =
     (case approval_section text of
        None \<Rightarrow> marks
      | Some section_text \<Rightarrow>
          if fst marks = 0 \<and> snd marks = 0 then
            (let has_signature =
                   found (seqs [nocase ''Digitally'', ws_plus, nocase ''signed'', ws_plus,
                                nocase ''by'']) section_text;
                 filtered_section =
                   join [CHR 0x0A] (filter (\<lambda>line. \<not> static_label line) (splitlines section_text));
                 mentions_disapprove = list_ex (\<lambda>phrase. found phrase filtered_section)
                                         disapproval_phrases
             in if has_signature \<and> \<not> mentions_disapprove then (1, snd marks)
                else if mentions_disapprove \<and> \<not> has_signature then (fst marks, 1)
                else marks)
          else marks)"

subsection \<open>The parser\<close>

text \<open>
  \<^verbatim>\<open>1\.\s*MISSION/TASK.*?\n(.+?)(?=\n2\.\s*DATE|\Z)\<close> and
  \<^verbatim>\<open>2\.\s*DATE PREPARED.*?\n(.+?)(?=\n3\.\s*PREPARED|\Z)\<close>; the text of the group is
  stripped and its runs of blanks collapsed.
\<close>

definition section_text :: "string \<Rightarrow> string option" where
  "section_text g = (let t = collapse_ws (py_strip g) in if t = [] then None else Some t)"

definition mission_text :: "string \<Rightarrow> string option" where
  "mission_text text =
     (case group1 (seqs [lit ''1.'', ws_star, nocase ''MISSION/TASK'', Many anychar 0 False, newline])
                  (Many anychar 1 False)
                  (Look (alts [seqs [newline, lit ''2.'', ws_star, nocase ''DATE''], Eos]))
                  text of
        None \<Rightarrow> None
      | Some g \<Rightarrow> section_text g)"

definition date_text :: "string \<Rightarrow> string option" where
  "date_text text =
     (case group1 (seqs [lit ''2.'', ws_star, nocase ''DATE PREPARED'', Many anychar 0 False, newline])
                  (Many anychar 1 False)
                  (Look (alts [seqs [newline, lit ''3.'', ws_star, nocase ''PREPARED''], Eos]))
                  text of
        None \<Rightarrow> None
      | Some g \<Rightarrow> section_text g)"

text \<open>
  The overall level before the narrative is read: the option the section marks, else the
  aggregate of the rows. \<open>Inl\<close> is the exception of the aggregate, which the tokens of
  the rows never lead to.
\<close>

definition overall_before_narrative ::
  "string \<Rightarrow> subtask_row list \<Rightarrow> py_error + string option" where
  "overall_before_narrative text rows =
     (if nonempty (explicit_overall text) then Inr (explicit_overall text)
      else calculate_overall_risk (map residual_risk_level rows))"

definition parse_dd2977 :: "string \<Rightarrow> py_error + dd2977" where
  "parse_dd2977 text =
     (let subtask_rows = extract_subtask_rows text;
          plan = supervision_plan text
      in case overall_before_narrative text subtask_rows of
           Inl e \<Rightarrow> Inl e
         | Inr overall_residual \<Rightarrow>
             (case parse_checkbox_value text ''APPROVE:'' of
                Inl e \<Rightarrow> Inl e
              | Inr approve_mark \<Rightarrow>
                  (case parse_checkbox_value text ''DISAPPROVE:'' of
                     Inl e \<Rightarrow> Inl e
                   | Inr disapprove_mark \<Rightarrow>
                       Inr \<lparr> mission_task_and_description = mission_text text,
                             date = date_text text,
                             prepared_by = extract_prepared_by_fields text,
                             subtasks = subtask_rows,
                             overall_residual_risk_level =
                               (case narrative_overall plan of
                                  Some mapped_level \<Rightarrow> Some mapped_level
                                | None \<Rightarrow> overall_residual),
                             overall_supervision_plan = plan,
                             approve = fst (infer_approval text (approve_mark, disapprove_mark)),
                             disapprove = snd (infer_approval text (approve_mark, disapprove_mark))
                           \<rparr>)))"

section \<open>The output assembler\<close>

definition is_slug_char :: "char \<Rightarrow> bool" where
  "is_slug_char c \<longleftrightarrow> is_lower_letter c \<or> is_digit c"

text \<open>\<^verbatim>\<open>re.sub(r"-{2,}", "-", s)\<close>: a run of two or more hyphens becomes one hyphen.\<close>

function collapse_hyphens :: "string \<Rightarrow> string" where
  "collapse_hyphens [] = []"
| "collapse_hyphens (c # cs) =
     (if c = CHR ''-'' \<and> (case cs of [] \<Rightarrow> False | d # _ \<Rightarrow> d = CHR ''-'')
      then CHR ''-'' # collapse_hyphens (dropWhile (\<lambda>d. d = CHR ''-'') cs)
      else c # collapse_hyphens cs)"
  by pat_completeness auto
termination
  by (relation "measure length") (auto simp: length_dropWhile_le le_imp_less_Suc)

definition slugify :: "string \<Rightarrow> string" where
  "slugify s =
     (let hyphenated = sub_runs (\<lambda>c. \<not> is_slug_char c) ''-'' (py_lower s);
          slug = strip_chars ''-'' (collapse_hyphens hyphenated)
      in if slug = [] then ''draw'' else slug)"

text \<open>\<^verbatim>\<open>re.search(r"\b(20\d{6})\b", stem) or re.search(r"\b(\d{8})\b", stem)\<close>.\<close>

definition times :: "nat \<Rightarrow> rx \<Rightarrow> rx" where
  "times n r = seqs (replicate n r)"

definition find_date_in_name :: "string \<Rightarrow> string option" where
  "find_date_in_name stem =
     (case group1 Wordb (seqs [lit ''20'', times 6 (Chr digits)]) Wordb stem of
        Some token \<Rightarrow> Some token
      | None \<Rightarrow> group1 Wordb (times 8 (Chr digits)) Wordb stem)"

text \<open>
  \<^verbatim>\<open>(20\d{2})[-/.]?(0[1-9]|1[0-2])[-/.]?(0[1-9]|[12]\d|3[01])\<close>: the three groups of the
  leftmost match, joined.
\<close>

definition date_scan :: "string \<Rightarrow> string option" where
  "date_scan s =
     (let year = seqs [lit ''20'', times 2 (Chr digits)];
          sep = opt (Chr (Of ''-/.''));
          month = alts [seqs [lit ''0'', Chr (Of ''123456789'')], seqs [lit ''1'', Chr (Of ''012'')]];
          day = alts [seqs [lit ''0'', Chr (Of ''123456789'')], seqs [Chr (Of ''12''), Chr digits],
                      seqs [lit ''3'', Chr (Of ''01'')]]
      in map_option snd
           (rsearch
              (\<lambda>st. rmatch year (\<lambda>a. rmatch sep (\<lambda>b. rmatch month (\<lambda>c. rmatch sep (\<lambda>d.
                       rmatch day (\<lambda>e. Some (group_text st a @ group_text b c @ group_text d e))
                     d) c) b) a) st)
              [] (None, s)))"

definition fmts :: "string list" where
  "fmts = [''%Y-%m-%d'', ''%m/%d/%Y'', ''%d/%m/%Y'', ''%d%b%Y'', ''%d%b%y'', ''%d %b %Y'',
           ''%d %B %Y'']"

text \<open>
  \<^verbatim>\<open>datetime\<close> is Python's library and is not modelled: \<open>strptime s f\<close> stands for
  \<^verbatim>\<open>datetime.strptime(s, f).strftime("%Y%m%d")\<close>, \<^term>\<open>None\<close> where it raises. The loop
  returns what the first format that parses gives.
\<close>

fun first_format :: "(string \<Rightarrow> string \<Rightarrow> string option) \<Rightarrow> string \<Rightarrow> string list \<Rightarrow> string option" where
  "first_format strptime s [] = None"
| "first_format strptime s (f # fs) =
     (case strptime s f of Some d \<Rightarrow> Some d | None \<Rightarrow> first_format strptime s fs)"

definition normalize_date_to_yyyymmdd ::
  "(string \<Rightarrow> string \<Rightarrow> string option) \<Rightarrow> string \<Rightarrow> string option" where
  "normalize_date_to_yyyymmdd strptime s =
     (if s = [] then None
      else case first_format strptime (py_strip s) fmts of
             Some d \<Rightarrow> Some d
           | None \<Rightarrow> date_scan s)"

text \<open>
  What the assembler knows of the file: the stem of its name, its last-modified date as
  \<^verbatim>\<open>%Y%m%d\<close>, the date library, and whether the output can be written. The other fields
  are what the collaborators of \<^verbatim>\<open>process_pdf\<close> return for the file: the decoded dataset
  (\<^term>\<open>None\<close> on any failure) and the text of each backend (empty on any failure).
\<close>

record pdf_file =
  stem :: string
  mtime_yyyymmdd :: string
  strptime_lib :: "string \<Rightarrow> string \<Rightarrow> string option"
  writable :: bool
  xfa_dataset :: "obj option"
  pymupdf_text :: string
  pdfminer_text :: string
  ocr_text :: string

definition yyyymmdd :: "pdf_file \<Rightarrow> dd2977 \<Rightarrow> string" where
  "yyyymmdd file parsed =
     (if nonempty (find_date_in_name (stem file)) then the (find_date_in_name (stem file))
      else if nonempty (normalize_date_to_yyyymmdd (strptime_lib file)
                          (case date parsed of None \<Rightarrow> [] | Some d \<Rightarrow> d))
      then the (normalize_date_to_yyyymmdd (strptime_lib file)
                  (case date parsed of None \<Rightarrow> [] | Some d \<Rightarrow> d))
      else mtime_yyyymmdd file)"

definition output_identifier :: "pdf_file \<Rightarrow> dd2977 \<Rightarrow> string" where
  "output_identifier file parsed = yyyymmdd file parsed @ ''-'' @ slugify (stem file)"

text \<open>The name of the output file in the output directory.\<close>

definition build_outpath :: "pdf_file \<Rightarrow> dd2977 \<Rightarrow> string" where
  "build_outpath file parsed = output_identifier file parsed @ ''.json''"

section \<open>Text acquisition and the processing of one file\<close>

text \<open>\<^verbatim>\<open>re.sub(r"\n{3,}", "\n\n", t)\<close>.\<close>

function squeeze_newlines :: "string \<Rightarrow> string" where
  "squeeze_newlines [] = []"
| "squeeze_newlines (c # cs) =
     (if c = CHR 0x0A
      then (if 2 \<le> length (takeWhile (\<lambda>d. d = CHR 0x0A) cs) then [CHR 0x0A, CHR 0x0A]
            else c # takeWhile (\<lambda>d. d = CHR 0x0A) cs)
           @ squeeze_newlines (dropWhile (\<lambda>d. d = CHR 0x0A) cs)
      else c # squeeze_newlines cs)"
  by pat_completeness auto
termination
  by (relation "measure length") (auto simp: length_dropWhile_le le_imp_less_Suc)

definition normalize_text :: "string \<Rightarrow> string" where
  "normalize_text t =
     squeeze_newlines
       (sub_runs (\<lambda>c. c = CHR '' '' \<or> c = CHR 0x09) '' ''
          (map (\<lambda>c. if c = CHR 0x0D then CHR 0x0A else c) t))"

datatype backend = Pymupdf | Pdfminer | Ocr

datatype event =
    Structured_extractor
  | Text_backend backend
  | Heuristic_parser string
  | Wrote string dd2977
  | Xfa_capability_diagnostic
  | No_text_diagnostic
  | Error_diagnostic

text \<open>The backend chain: the backends that ran, and the transcript.\<close>

definition usable :: "string \<Rightarrow> bool" where
  "usable txt \<longleftrightarrow> txt \<noteq> [] \<and> py_strip txt \<noteq> []"

definition extract_text_multibackend :: "pdf_file \<Rightarrow> bool \<Rightarrow> event list \<times> string" where
  "extract_text_multibackend file force_ocr =
     (if force_ocr then ([Text_backend Ocr], normalize_text (ocr_text file))
      else if usable (pymupdf_text file)
        then ([Text_backend Pymupdf], normalize_text (pymupdf_text file))
      else if usable (pdfminer_text file)
        then ([Text_backend Pymupdf, Text_backend Pdfminer], normalize_text (pdfminer_text file))
      else if usable (ocr_text file)
        then ([Text_backend Pymupdf, Text_backend Pdfminer, Text_backend Ocr],
              normalize_text (ocr_text file))
      else ([Text_backend Pymupdf, Text_backend Pdfminer, Text_backend Ocr], []))"

text \<open>Writing the record: an exception of the file system ends in the error message.\<close>

definition write_record :: "pdf_file \<Rightarrow> dd2977 \<Rightarrow> event list \<times> bool" where
  "write_record file parsed =
     (if writable file then ([Wrote (build_outpath file parsed) parsed], True)
      else ([Error_diagnostic], False))"

text \<open>
  \<^verbatim>\<open>process_pdf\<close>: what ran and what was reported, in order, and the returned flag. An
  exception of the structured extractor, of the heuristic parser or of the write is caught
  by the \<^verbatim>\<open>except Exception\<close> of the function, which reports it and returns \<^verbatim>\<open>False\<close>.
\<close>

definition process_pdf :: "pdf_file \<Rightarrow> bool \<Rightarrow> event list \<times> bool" where
  "process_pdf file force_ocr =
     (case parse_dd2977_xfa (xfa_dataset file) of
        Inl e \<Rightarrow> ([Structured_extractor, Error_diagnostic], False)
      | Inr (Some parsed) \<Rightarrow>
          (Structured_extractor # fst (write_record file parsed), snd (write_record file parsed))
      | Inr None \<Rightarrow>
          (let acquired = extract_text_multibackend file force_ocr;
               text = snd acquired;
               ran = Structured_extractor # fst acquired
           in if contains text ''Please wait'' \<and> contains text ''Adobe Reader''
              then (ran @ [Xfa_capability_diagnostic], False)
              else if py_strip text = [] then (ran @ [No_text_diagnostic], False)
              else (case parse_dd2977 text of
                      Inl e \<Rightarrow> (ran @ [Heuristic_parser text, Error_diagnostic], False)
                    | Inr parsed \<Rightarrow>
                        (ran @ Heuristic_parser text # fst (write_record file parsed),
                         snd (write_record file parsed)))))"

section \<open>The notions the properties are stated with\<close>


definition same_ignoring_case :: "string \<Rightarrow> string \<Rightarrow> bool" where
  "same_ignoring_case a b \<longleftrightarrow> py_upper a = py_upper b"

text \<open>
  The normalizer in the words of its description: the words, the legacy numerals and the
  codes, each compared as described, and every other text unchanged.
\<close>

definition normalize_spec :: "string \<Rightarrow> string" where
  "normalize_spec raw =
     (if same_ignoring_case raw ''Extremely High'' then ''EH''
      else if same_ignoring_case raw ''Very High'' \<or> same_ignoring_case raw ''High'' then ''H''
      else if same_ignoring_case raw ''Medium'' \<or> same_ignoring_case raw ''Med''
              \<or> same_ignoring_case raw ''Moderate'' then ''M''
      else if same_ignoring_case raw ''Low'' \<or> same_ignoring_case raw ''Negligible'' then ''L''
      else if raw = ''0'' then ''L''
      else if raw = ''1'' then ''M''
      else if raw = ''2'' then ''H''
      else if raw = ''3'' then ''EH''
      else if same_ignoring_case raw ''EH'' then ''EH''
      else if same_ignoring_case raw ''H'' then ''H''
      else if same_ignoring_case raw ''M'' then ''M''
      else if same_ignoring_case raw ''L'' then ''L''
      else raw)"

text \<open>
  The values the description of the normalizer lists: the eight words in any case, the four
  numerals, and the four codes as they are written.
\<close>

definition listed :: "string \<Rightarrow> bool" where
  "listed raw \<longleftrightarrow>
     list_ex (same_ignoring_case raw)
       [''Extremely High'', ''Very High'', ''High'', ''Medium'', ''Med'', ''Moderate'', ''Low'',
        ''Negligible'']
     \<or> raw \<in> set [''0'', ''1'', ''2'', ''3'']
     \<or> raw \<in> set [''EH'', ''H'', ''M'', ''L'']"




text \<open>
  The rules of the per-line classifier in the words of their description, in their order
  of precedence: what a short risk-code token is, which rule a line falls under in a given
  state, and what each rule does.
\<close>

definition short_risk_code :: "string \<Rightarrow> bool" where
  "short_risk_code line \<longleftrightarrow>
     (1 \<le> length line \<and> length line \<le> 3 \<and> set line \<subseteq> set ''MHLE'')
     \<or> (length line = 1 \<and> hd line \<in> set ''012345'')"

datatype line_rule = Risk_code | How_prefix | Who_prefix | Dash_bullet | Append_to_current

definition classify :: "row_section \<Rightarrow> string \<Rightarrow> line_rule" where
  "classify state line =
     (if short_risk_code line then Risk_code
      else if startswith line ''How:'' then How_prefix
      else if startswith line ''Who:'' then Who_prefix
      else if startswith line ''-'' \<and> (state = Controls \<or> state = Subtask) then Dash_bullet
      else Append_to_current)"

definition append_line :: "row_section \<Rightarrow> string \<Rightarrow> scan \<Rightarrow> scan" where
  "append_line state line st =
     (case state of
        Subtask \<Rightarrow> st\<lparr>subtask_lines := subtask_lines st @ [line]\<rparr>
      | Controls \<Rightarrow> st\<lparr>controls_lines := controls_lines st @ [line]\<rparr>
      | How \<Rightarrow> st\<lparr>how_lines := how_lines st @ [line]\<rparr>
      | Who \<Rightarrow> st\<lparr>who_lines := who_lines st @ [line]\<rparr>)"

text \<open>The text after a four-character prefix, appended to a buffer unless it is blank.\<close>

definition captured :: "string \<Rightarrow> string list \<Rightarrow> string list" where
  "captured line buffer =
     (if py_strip (drop 4 line) = [] then buffer else buffer @ [py_strip (drop 4 line)])"

definition apply_rule :: "line_rule \<Rightarrow> string \<Rightarrow> scan \<Rightarrow> scan \<times> bool" where
  "apply_rule rule line st =
     (case rule of
        Risk_code \<Rightarrow>
          if found_first_risk st then (st\<lparr>residual_risk := Some line\<rparr>, True)
          else (st\<lparr>initial_risk := Some line, found_first_risk := True,
                   current_section := Controls\<rparr>, False)
      | How_prefix \<Rightarrow> (st\<lparr>current_section := How, how_lines := captured line (how_lines st)\<rparr>, False)
      | Who_prefix \<Rightarrow> (st\<lparr>current_section := Who, who_lines := captured line (who_lines st)\<rparr>, False)
      | Dash_bullet \<Rightarrow> (append_line Controls line (st\<lparr>current_section := Controls\<rparr>), False)
      | Append_to_current \<Rightarrow> (append_line (current_section st) line st, False))"

text \<open>The risk-code lines of a row, in their order.\<close>

definition risk_codes :: "string list \<Rightarrow> string list" where
  "risk_codes lines = filter short_risk_code (map py_strip lines)"

text \<open>
  Name inheritance in the words of its description: the most recent non-empty name of a
  list of earlier names (\<open>fallback\<close> where there is none), and the names of the rows of
  the structured table that are mappings.
\<close>

definition most_recent :: "string option \<Rightarrow> string option list \<Rightarrow> string option" where
  "most_recent fallback earlier =
     (case filter nonempty (rev earlier) of [] \<Rightarrow> fallback | n # _ \<Rightarrow> n)"

fun dict_entries :: "obj list \<Rightarrow> (string \<times> obj) list list" where
  "dict_entries [] = []"
| "dict_entries (Dict entry # rest) = entry # dict_entries rest"
| "dict_entries (_ # rest) = dict_entries rest"

text \<open>The rows of the heuristic table that are not skipped, as their lines.\<close>

definition kept_rows :: "string list \<Rightarrow> string list list" where
  "kept_rows row_matches =
     map row_lines
       (filter (\<lambda>row_content. \<not> (py_strip row_content = [] \<or> row_lines row_content = []))
          row_matches)"



text \<open>The loop over the rows of the heuristic table, on the rows that are kept.\<close>

fun rows_from :: "string option \<Rightarrow> string list list \<Rightarrow> subtask_row list" where
  "rows_from last_subtask_name [] = []"
| "rows_from last_subtask_name (lines # rest) =
     heuristic_row last_subtask_name lines
     # rows_from (next_subtask_name last_subtask_name lines) rest"

text \<open>A list of names after inheritance, each missing one replaced by the last one seen.\<close>

fun inherit_names :: "string option \<Rightarrow> string option list \<Rightarrow> string option list" where
  "inherit_names seen [] = []"
| "inherit_names seen (n # ns) =
     (if nonempty n then n # inherit_names n ns else seen # inherit_names seen ns)"

text \<open>
  Lines that are trimmed and not empty, a name that is not blank text, and the name a row
  has after the two repairs that may hand it the previous row's name.
\<close>

definition clean_lines :: "string list \<Rightarrow> bool" where
  "clean_lines ls \<longleftrightarrow> (\<forall>l\<in>set ls. l \<noteq> [] \<and> py_strip l = l)"

definition tidy :: "string option \<Rightarrow> bool" where
  "tidy n \<longleftrightarrow> (case n of None \<Rightarrow> True | Some s \<Rightarrow> py_strip s = s)"

definition current_name :: "string option \<Rightarrow> string list \<Rightarrow> string option" where
  "current_name seen lines =
     fst (reuse_previous seen (repair seen
            (name_and_hazard (split_subtask_lines (subtask_lines (scan_lines scan_start lines))))))"

text \<open>
  Three consecutive rows where only the first has a name of its own, as the structured
  table has them and as the text of the heuristic table has them.
\<close>

definition three_entries :: "obj list" where
  "three_entries =
     [Dict [(''Subtask'', Str ''Move out''), (''Hazard'', Str ''Rollover'')],
      Dict [(''Hazard'', Str ''Heat'')],
      Dict [(''Subtask'', Str ''  ''), (''Hazard'', Str ''Cold'')]]"

definition three_rows :: "string list" where
  "three_rows =
     [''Convoy ops: Rollover'' @ [CHR 0x0A] @ ''M'' @ [CHR 0x0A] @ ''L'',
      ''H'' @ [CHR 0x0A] @ ''- slow down'' @ [CHR 0x0A] @ ''M'',
      ''L'' @ [CHR 0x0A] @ ''L'']"

text \<open>
  Two files: one with a well-formed dataset and garbled text, one without a dataset whose
  text layer is the message a viewer shows for a form it cannot render.
\<close>

definition dataset_file :: pdf_file where
  "dataset_file =
     \<lparr> stem = ''DRAW 20240305 range'', mtime_yyyymmdd = ''20250101'',
       strptime_lib = (\<lambda>s f. None), writable = True,
       xfa_dataset =
         Some (Dict [(''form1'', Dict [(''Page1'',
           Dict [(''One'', Str ''Live fire range''),
                 (''Part4thru9'', Dict [(''Row1'',
                    Dict [(''Subtask'', Str ''Zero''), (''Hazard'', Str ''Ricochet''),
                          (''InitialRiskLevel'', Str ''High''), (''RRL'', Str ''1'')])])])])]),
       pymupdf_text = ''1. MISSION/TASK zz#@!\<newline>q9 10. OVERALL RESIDUAL RISK LEVEL: LOW'',
       pdfminer_text = [], ocr_text = [] \<rparr>"

definition placeholder_file :: pdf_file where
  "placeholder_file =
     \<lparr> stem = ''form'', mtime_yyyymmdd = ''20250101'',
       strptime_lib = (\<lambda>s f. None), writable = True,
       xfa_dataset = None,
       pymupdf_text = ''Please wait...\<newline>If this message is not eventually replaced by the proper contents of the document, your PDF viewer may not be able to display this type of document.\<newline>You can upgrade to the latest version of Adobe Reader for Windows, Mac, or Linux by visiting http://www.adobe.com/go/reader_download.'',
       pdfminer_text = [], ocr_text = [] \<rparr>"

definition dataset_record :: dd2977 where
  "dataset_record =
     \<lparr> mission_task_and_description = Some ''Live fire range'', date = None,
       prepared_by = \<lparr> name_last_first_middle_initial = None, rank_grade = None,
                       duty_title_position = None, unit = None, work_email = None,
                       telephone = None, uic_cin = None,
                       training_support_or_lesson_plan_or_opord = None,
                       signature_of_preparer = None \<rparr>,
       subtasks = [\<lparr> name = Some ''Zero'', hazard = Some ''Ricochet'',
                     initial_risk_level = Some ''H'', control = [], how = [], who = [],
                     residual_risk_level = Some ''M'' \<rparr>],
       overall_residual_risk_level = Some ''M'', overall_supervision_plan = None,
       approve = 0, disapprove = 0 \<rparr>"

text \<open>
  A plan whose narrative names the level across a line break, the same plan on one line,
  and a text whose approval mark is a run of 4301 digits.
\<close>

definition wrapped_plan :: string where
  "wrapped_plan =
     ''10. OVERALL RESIDUAL RISK LEVEL: LOW\<newline>11. OVERALL SUPERVISION PLAN: The overall residual risk is extremely\<newline>high.''"

definition unwrapped_plan :: string where
  "unwrapped_plan =
     ''10. OVERALL RESIDUAL RISK LEVEL: LOW\<newline>11. OVERALL SUPERVISION PLAN: The overall residual risk is extremely high.''"

definition long_mark :: string where
  "long_mark = ''APPROVE: '' @ replicate 4301 (CHR ''1'')"







section \<open>Properties\<close>

subsection \<open>Evaluation of the string functions\<close>

lemmas py_string_simps =
  py_strip_def py_rstrip_def py_lstrip_def py_isspace_def py_upper_def upper_char_def
  py_lower_def lower_char_def lower_letters_def upper_letters_def

subsection \<open>The risk normalizer\<close>

lemma upper_words:
  "py_upper ''Extremely High'' = ''EXTREMELY HIGH''" "py_upper ''Very High'' = ''VERY HIGH''"
  "py_upper ''High'' = ''HIGH''" "py_upper ''Medium'' = ''MEDIUM''" "py_upper ''Med'' = ''MED''"
  "py_upper ''Moderate'' = ''MODERATE''" "py_upper ''Low'' = ''LOW''"
  "py_upper ''Negligible'' = ''NEGLIGIBLE''"
  "py_upper ''EH'' = ''EH''" "py_upper ''H'' = ''H''" "py_upper ''M'' = ''M''" "py_upper ''L'' = ''L''"
  by (simp_all add: py_string_simps)

lemma upper_numeral:
  "py_upper ''0'' = ''0''" "py_upper ''1'' = ''1''" "py_upper ''2'' = ''2''" "py_upper ''3'' = ''3''"
  by (simp_all add: py_string_simps)

lemma normalize_Some:
  assumes "coerce_to_string v = Some raw"
  shows "normalize_risk_level v = Some (normalize_spec raw)"
proof -
  consider (w) "py_upper raw \<in> set (map fst mapping)"
    | (n) "py_upper raw \<notin> set (map fst mapping)" "raw \<in> set (map fst numeric_map)"
    | (c) "py_upper raw \<notin> set (map fst mapping)" "raw \<notin> set (map fst numeric_map)"
          "py_upper raw \<in> set [''EH'', ''H'', ''M'', ''L'']"
    | (o) "py_upper raw \<notin> set (map fst mapping)" "raw \<notin> set (map fst numeric_map)"
          "py_upper raw \<notin> set [''EH'', ''H'', ''M'', ''L'']"
    by blast
  then show ?thesis
  proof cases
    case w
    then show ?thesis using assms
      unfolding normalize_risk_level_def normalize_spec_def same_ignoring_case_def upper_words
      by (auto simp: mapping_def)
  next
    case n
    then show ?thesis using assms
      unfolding normalize_risk_level_def normalize_spec_def same_ignoring_case_def upper_words
      by (auto simp: mapping_def numeric_map_def upper_numeral)
  next
    case c
    then show ?thesis using assms
      unfolding normalize_risk_level_def normalize_spec_def same_ignoring_case_def upper_words
      by (auto simp: mapping_def numeric_map_def)
  next
    case o
    then show ?thesis using assms
      unfolding normalize_risk_level_def normalize_spec_def same_ignoring_case_def upper_words
      by (auto simp: mapping_def numeric_map_def)
  qed
qed

lemma normalize_None: "coerce_to_string v = None \<Longrightarrow> normalize_risk_level v = None"
  by (simp add: normalize_risk_level_def)

lemma coerce_Str:
  "coerce_to_string (Some (Str s)) = (if py_strip s = [] then None else Some (py_strip s))"
  by (simp add: coerce_to_string_def Let_def)

text \<open>
  Claim C3, as the code has it. The normalizer applies \<open>normalize_spec\<close> to the trimmed
  text of its input: each of the words Extremely High, Very High, High, Medium, Med,
  Moderate, Low and Negligible, in any case, goes to its code (EH; H, H; M, M, M; L, L), the
  numerals 0, 1, 2, 3 go to L, M, H, EH, and each of the codes EH, H, M, L, also in any
  case, goes to its upper-case form. An input whose trimmed text is empty gives null. Every
  other input is returned as its trimmed text, so "purple" passes through unchanged.
\<close>

theorem normalizer_coverage:
  "normalize_risk_level v = map_option normalize_spec (coerce_to_string v)
   \<and> coerce_to_string (Some (Str s)) = (if py_strip s = [] then None else Some (py_strip s))
   \<and> normalize_risk_level (Some (Str ''purple'')) = Some ''purple''"
proof (intro conjI)
  show "normalize_risk_level v = map_option normalize_spec (coerce_to_string v)"
    by (cases "coerce_to_string v") (simp_all add: normalize_None normalize_Some)
  show "coerce_to_string (Some (Str s)) = (if py_strip s = [] then None else Some (py_strip s))"
    by (rule coerce_Str)
  have "coerce_to_string (Some (Str ''purple'')) = Some ''purple''"
    by (simp add: coerce_Str py_string_simps)
  then have "normalize_risk_level (Some (Str ''purple'')) = Some (normalize_spec ''purple'')"
    by (rule normalize_Some)
  also have "normalize_spec ''purple'' = ''purple''"
    by (simp add: normalize_spec_def same_ignoring_case_def py_string_simps)
  finally show "normalize_risk_level (Some (Str ''purple'')) = Some ''purple''" .
qed

text \<open>
  The claim as it is written lists the codes in upper case only and promises every other
  non-empty value back as its trimmed text. The lower-case code "h" is no listed value, yet
  it comes back as "H"; and a value of blanks only is not empty, yet it gives null.
\<close>

theorem normalizer_lowercase_code_counterexample:
  "\<not> listed ''h'' \<and> normalize_risk_level (Some (Str ''h'')) = Some ''H'' \<and> py_strip ''h'' = ''h''
   \<and> \<not> listed ''   '' \<and> normalize_risk_level (Some (Str ''   '')) = None"
  by (simp add: listed_def same_ignoring_case_def normalize_risk_level_def coerce_to_string_def
        mapping_def numeric_map_def py_string_simps)

subsection \<open>The aggregate\<close>


























subsection \<open>The per-line state machine\<close>

lemma is_risk_token_iff: "is_risk_token line \<longleftrightarrow> short_risk_code line"
proof (cases line)
  case Nil
  then show ?thesis by (simp add: is_risk_token_def short_risk_code_def)
next
  case (Cons c cs)
  then show ?thesis
    by (cases cs) (auto simp: is_risk_token_def short_risk_code_def list_all_iff)
qed

lemma scan_line_blank: "py_strip raw = [] \<Longrightarrow> scan_line st raw = (st, False)"
  by (simp add: scan_line_def)

lemma scan_line_rule:
  assumes "py_strip raw = line" "line \<noteq> []"
  shows "scan_line st raw = apply_rule (classify (current_section st) line) line st"
proof -
  consider (risk) "short_risk_code line"
    | (how) "\<not> short_risk_code line" "startswith line ''How:''"
    | (who) "\<not> short_risk_code line" "\<not> startswith line ''How:''" "startswith line ''Who:''"
    | (dash) "\<not> short_risk_code line" "\<not> startswith line ''How:''" "\<not> startswith line ''Who:''"
             "startswith line ''-'' \<and> (current_section st = Controls \<or> current_section st = Subtask)"
    | (other) "\<not> short_risk_code line" "\<not> startswith line ''How:''" "\<not> startswith line ''Who:''"
             "\<not> (startswith line ''-'' \<and> (current_section st = Controls \<or> current_section st = Subtask))"
    by blast
  then show ?thesis
  proof cases
    case risk
    then show ?thesis using assms
      by (simp add: scan_line_def is_risk_token_iff classify_def apply_rule_def)
  next
    case how
    then show ?thesis using assms
      by (simp add: scan_line_def is_risk_token_iff classify_def apply_rule_def captured_def Let_def)
  next
    case who
    then show ?thesis using assms
      by (simp add: scan_line_def is_risk_token_iff classify_def apply_rule_def captured_def Let_def)
  next
    case dash
    then show ?thesis using assms
      by (auto simp: scan_line_def is_risk_token_iff classify_def apply_rule_def append_line_def)
  next
    case other
    then show ?thesis using assms
      by (cases "current_section st")
         (auto simp: scan_line_def is_risk_token_iff classify_def apply_rule_def append_line_def)
  qed
qed

text \<open>What one line does to the two risk values.\<close>

lemma scan_line_first_code:
  assumes "short_risk_code (py_strip raw)" "\<not> found_first_risk st"
  shows "snd (scan_line st raw) = False" "found_first_risk (fst (scan_line st raw))"
    "initial_risk (fst (scan_line st raw)) = Some (py_strip raw)"
    "residual_risk (fst (scan_line st raw)) = residual_risk st"
proof -
  have ne: "py_strip raw \<noteq> []" using assms(1) by (auto simp: short_risk_code_def)
  show "snd (scan_line st raw) = False" "found_first_risk (fst (scan_line st raw))"
    "initial_risk (fst (scan_line st raw)) = Some (py_strip raw)"
    "residual_risk (fst (scan_line st raw)) = residual_risk st"
    using assms ne by (simp_all add: scan_line_def is_risk_token_iff)
qed

lemma scan_line_second_code:
  assumes "short_risk_code (py_strip raw)" "found_first_risk st"
  shows "snd (scan_line st raw) = True"
    "initial_risk (fst (scan_line st raw)) = initial_risk st"
    "residual_risk (fst (scan_line st raw)) = Some (py_strip raw)"
proof -
  have ne: "py_strip raw \<noteq> []" using assms(1) by (auto simp: short_risk_code_def)
  show "snd (scan_line st raw) = True"
    "initial_risk (fst (scan_line st raw)) = initial_risk st"
    "residual_risk (fst (scan_line st raw)) = Some (py_strip raw)"
    using assms ne by (simp_all add: scan_line_def is_risk_token_iff)
qed

lemma scan_line_no_code:
  assumes "\<not> short_risk_code (py_strip raw)"
  shows "snd (scan_line st raw) = False"
    "found_first_risk (fst (scan_line st raw)) = found_first_risk st"
    "initial_risk (fst (scan_line st raw)) = initial_risk st"
    "residual_risk (fst (scan_line st raw)) = residual_risk st"
  using assms by (simp_all add: scan_line_def is_risk_token_iff Let_def)

lemma risk_codes_simps:
  "risk_codes [] = []"
  "risk_codes (raw # rest) =
     (if short_risk_code (py_strip raw) then py_strip raw # risk_codes rest else risk_codes rest)"
  by (simp_all add: risk_codes_def)

lemma scan_lines_step:
  "scan_lines st (raw # rest) =
     (if snd (scan_line st raw) then fst (scan_line st raw)
      else scan_lines (fst (scan_line st raw)) rest)"
  by (simp add: case_prod_beta)

lemma scan_lines_found:
  assumes "found_first_risk st"
  shows "initial_risk (scan_lines st ls) = initial_risk st
       \<and> residual_risk (scan_lines st ls) =
           (case risk_codes ls of [] \<Rightarrow> residual_risk st | c # _ \<Rightarrow> Some c)"
  using assms
proof (induction ls arbitrary: st)
  case Nil
  then show ?case by (simp add: risk_codes_simps)
next
  case (Cons raw rest)
  show ?case
  proof (cases "short_risk_code (py_strip raw)")
    case True
    then show ?thesis using Cons.prems scan_line_second_code[of raw st]
      by (simp add: scan_lines_step risk_codes_simps del: scan_lines.simps split: list.splits)
  next
    case False
    then show ?thesis
      using Cons.prems scan_line_no_code[of raw st] Cons.IH[of "fst (scan_line st raw)"]
      by (simp add: scan_lines_step risk_codes_simps del: scan_lines.simps split: list.splits)
  qed
qed

lemma scan_lines_not_found:
  assumes "\<not> found_first_risk st"
  shows "initial_risk (scan_lines st ls) =
           (case risk_codes ls of [] \<Rightarrow> initial_risk st | c # _ \<Rightarrow> Some c)
       \<and> residual_risk (scan_lines st ls) =
           (case risk_codes ls of c # r # _ \<Rightarrow> Some r | _ \<Rightarrow> residual_risk st)"
  using assms
proof (induction ls arbitrary: st)
  case Nil
  then show ?case by (simp add: risk_codes_simps)
next
  case (Cons raw rest)
  show ?case
  proof (cases "short_risk_code (py_strip raw)")
    case True
    then show ?thesis
      using Cons.prems scan_line_first_code[of raw st]
        scan_lines_found[of "fst (scan_line st raw)" rest]
      by (simp add: scan_lines_step risk_codes_simps del: scan_lines.simps split: list.splits)
  next
    case False
    then show ?thesis
      using Cons.prems scan_line_no_code[of raw st] Cons.IH[of "fst (scan_line st raw)"]
      by (simp add: scan_lines_step risk_codes_simps del: scan_lines.simps split: list.splits)
  qed
qed

text \<open>The second risk code ends the row: what follows it is not read.\<close>

lemma scan_lines_stop_found:
  assumes "found_first_risk st" "risk_codes pre \<noteq> []"
  shows "scan_lines st (pre @ post) = scan_lines st pre"
  using assms
proof (induction pre arbitrary: st)
  case Nil
  then show ?case by (simp add: risk_codes_simps)
next
  case (Cons raw rest)
  show ?case
  proof (cases "short_risk_code (py_strip raw)")
    case True
    then show ?thesis using Cons.prems scan_line_second_code[of raw st]
      by (simp add: scan_lines_step del: scan_lines.simps)
  next
    case False
    then have "risk_codes rest \<noteq> []" using Cons.prems(2) by (simp add: risk_codes_simps)
    then show ?thesis
      using False Cons.prems scan_line_no_code[of raw st] Cons.IH[of "fst (scan_line st raw)"]
      by (simp add: scan_lines_step del: scan_lines.simps)
  qed
qed

lemma scan_lines_stop:
  assumes "\<not> found_first_risk st" "2 \<le> length (risk_codes pre)"
  shows "scan_lines st (pre @ post) = scan_lines st pre"
  using assms
proof (induction pre arbitrary: st)
  case Nil
  then show ?case by (simp add: risk_codes_simps)
next
  case (Cons raw rest)
  show ?case
  proof (cases "short_risk_code (py_strip raw)")
    case True
    then have "risk_codes rest \<noteq> []" using Cons.prems(2)
      by (cases "risk_codes rest") (simp_all add: risk_codes_simps)
    then show ?thesis
      using True Cons.prems scan_line_first_code[of raw st]
        scan_lines_stop_found[of "fst (scan_line st raw)" rest post]
      by (simp add: scan_lines_step del: scan_lines.simps)
  next
    case False
    then have "2 \<le> length (risk_codes rest)" using Cons.prems(2) by (simp add: risk_codes_simps)
    then show ?thesis
      using False Cons.prems scan_line_no_code[of raw st] Cons.IH[of "fst (scan_line st raw)"]
      by (simp add: scan_lines_step del: scan_lines.simps)
  qed
qed

text \<open>
  Claim C7, as the code has it. A blank line is skipped. Every other line, trimmed, falls
  under exactly one rule, in this fixed order of precedence: a short risk-code token (one
  to three letters among M, H, L, E, or one digit from 0 to 5) records a risk value, the
  first one as the initial risk (and the state becomes controls), the second one as the
  residual risk, which ends the row; otherwise a line that starts with "How:" or "Who:"
  switches to that state and captures what follows the prefix; otherwise a line that starts
  with a dash, in the controls or subtask state, is a control item; otherwise the line is
  appended to the buffer of the current state. Over a whole row the initial risk is the
  first risk-code line, the residual risk is the second, and no line after the second is
  read.
\<close>

theorem line_classifier:
  "(py_strip raw = [] \<longrightarrow> scan_line st raw = (st, False))
   \<and> (py_strip raw \<noteq> [] \<longrightarrow>
        scan_line st raw = apply_rule (classify (current_section st) (py_strip raw)) (py_strip raw) st)
   \<and> initial_risk (scan_lines scan_start lines) =
        (case risk_codes lines of [] \<Rightarrow> None | first # _ \<Rightarrow> Some first)
   \<and> residual_risk (scan_lines scan_start lines) =
        (case risk_codes lines of first # second # _ \<Rightarrow> Some second | _ \<Rightarrow> None)
   \<and> (2 \<le> length (risk_codes lines) \<longrightarrow>
        scan_lines scan_start (lines @ later) = scan_lines scan_start lines)"
proof -
  have s: "\<not> found_first_risk scan_start" "initial_risk scan_start = None"
    "residual_risk scan_start = None"
    by (simp_all add: scan_start_def)
  show ?thesis
    using scan_line_blank[of raw st] scan_line_rule[of raw "py_strip raw" st]
      scan_lines_not_found[OF s(1), of lines] scan_lines_stop[OF s(1), of lines later] s(2,3)
    by (simp split: list.splits)
qed

theorem line_classifier_witness:
  "py_strip '' How: brief all '' \<noteq> []
   \<and> scan_line scan_start '' How: brief all ''
       = (scan_start\<lparr>current_section := How, how_lines := [''brief all'']\<rparr>, False)
   \<and> 2 \<le> length (risk_codes [''Task'', ''M'', ''- c'', ''5'', ''H''])
   \<and> scan_lines scan_start ([''Task'', ''M'', ''- c'', ''5'', ''H''] @ [''L''])
       = scan_lines scan_start [''Task'', ''M'', ''- c'', ''5'', ''H'']
   \<and> py_strip ''   '' = [] \<and> scan_line scan_start ''   '' = (scan_start, False)"
proof -
  have s: "py_strip '' How: brief all '' = ''How: brief all''" "py_strip ''   '' = []"
    by (simp_all add: py_string_simps)
  have c: "classify Subtask ''How: brief all'' = How_prefix"
    by (simp add: classify_def short_risk_code_def startswith_def)
  have cs: "current_section scan_start = Subtask" by (simp add: scan_start_def)
  have k: "risk_codes [''Task'', ''M'', ''- c'', ''5'', ''H''] = [''M'', ''5'', ''H'']"
    by (simp add: risk_codes_def short_risk_code_def py_string_simps)
  have a: "apply_rule How_prefix ''How: brief all'' scan_start
             = (scan_start\<lparr>current_section := How, how_lines := [''brief all'']\<rparr>, False)"
    by (simp add: apply_rule_def captured_def scan_start_def py_string_simps)
  show ?thesis
    using line_classifier[of "'' How: brief all ''" scan_start "[''Task'', ''M'', ''- c'', ''5'', ''H'']" "[''L'']"]
      line_classifier[of "''   ''" scan_start "[]" "[]"]
    by (simp add: s c k a cs)
qed

text \<open>
  The claim as it is written takes any single digit for a risk code. The line "7" is a
  single digit, yet no risk value is recorded: the line is appended to the subtask buffer.
\<close>

theorem line_classifier_digit_counterexample:
  "initial_risk (scan_lines scan_start [''7'']) = None
   \<and> subtask_lines (scan_lines scan_start [''7'']) = [''7'']
   \<and> initial_risk (scan_lines scan_start [''5'']) = Some ''5''"
  by (simp add: scan_line_def is_risk_token_def scan_start_def startswith_def py_string_simps)


subsection \<open>Trimmed text\<close>

lemma rstrip_prefix: "\<exists>w. t = py_rstrip t @ w"
proof -
  have "rev (takeWhile py_isspace (rev t) @ dropWhile py_isspace (rev t)) = rev (rev t)"
    by (simp only: takeWhile_dropWhile_id)
  then have "rev (dropWhile py_isspace (rev t)) @ rev (takeWhile py_isspace (rev t)) = t"
    by (simp only: rev_append rev_rev_ident)
  then show ?thesis unfolding py_rstrip_def by metis
qed

lemma py_strip_hd:
  assumes "py_strip s \<noteq> []"
  shows "\<not> py_isspace (hd (py_strip s))"
proof -
  define t where "t = dropWhile py_isspace s"
  obtain w where w: "t = py_rstrip t @ w" using rstrip_prefix by blast
  have u: "py_strip s = py_rstrip t" by (simp add: py_strip_def py_lstrip_def t_def)
  with assms have ne: "py_rstrip t \<noteq> []" by simp
  then have "t \<noteq> []" using w by auto
  then have "\<not> py_isspace (hd t)" unfolding t_def by (rule hd_dropWhile)
  moreover have "hd t = hd (py_rstrip t)" using w ne by (metis hd_append2)
  ultimately show ?thesis using u by simp
qed

lemma py_strip_last:
  assumes "py_strip s \<noteq> []"
  shows "\<not> py_isspace (last (py_strip s))"
proof -
  define t where "t = dropWhile py_isspace s"
  have u: "py_strip s = rev (dropWhile py_isspace (rev t))"
    by (simp add: py_strip_def py_lstrip_def py_rstrip_def t_def)
  with assms have ne: "dropWhile py_isspace (rev t) \<noteq> []" by simp
  then have "\<not> py_isspace (hd (dropWhile py_isspace (rev t)))" by (rule hd_dropWhile)
  then show ?thesis using u ne by (simp add: last_rev)
qed

lemma trimmed_iff:
  "py_strip s = s \<longleftrightarrow> s = [] \<or> (\<not> py_isspace (hd s) \<and> \<not> py_isspace (last s))"
proof
  assume "py_strip s = s"
  then show "s = [] \<or> (\<not> py_isspace (hd s) \<and> \<not> py_isspace (last s))"
    using py_strip_hd[of s] py_strip_last[of s] by auto
next
  assume a: "s = [] \<or> (\<not> py_isspace (hd s) \<and> \<not> py_isspace (last s))"
  show "py_strip s = s"
  proof (cases "s = []")
    case True
    then show ?thesis by (simp add: py_strip_def py_lstrip_def py_rstrip_def)
  next
    case False
    with a have h: "\<not> py_isspace (hd s)" and l: "\<not> py_isspace (last s)" by auto
    have 1: "dropWhile py_isspace s = s" using h False by (simp add: dropWhile_eq_self_iff)
    have "hd (rev s) = last s" using False by (simp add: hd_rev)
    then have 2: "dropWhile py_isspace (rev s) = rev s" using l by (simp add: dropWhile_eq_self_iff)
    show ?thesis by (simp add: py_strip_def py_lstrip_def py_rstrip_def 1 2)
  qed
qed

lemma py_strip_idem: "py_strip (py_strip s) = py_strip s"
  unfolding trimmed_iff[of "py_strip s"] using py_strip_hd[of s] py_strip_last[of s] by blast

lemma join_Cons_nonempty: "join sep (l # ls) = l @ (if ls = [] then [] else sep @ join sep ls)"
  by (cases ls) simp_all

lemma join_hd: "l \<noteq> [] \<Longrightarrow> hd (join sep (l # ls)) = hd l"
  by (simp add: join_Cons_nonempty)

lemma join_nonempty: "ls \<noteq> [] \<Longrightarrow> \<forall>l\<in>set ls. l \<noteq> [] \<Longrightarrow> join sep ls \<noteq> []"
  by (cases ls) (simp_all add: join_Cons_nonempty)

lemma join_last:
  "ls \<noteq> [] \<Longrightarrow> \<forall>l\<in>set ls. l \<noteq> [] \<Longrightarrow> last (join sep ls) = last (last ls)"
proof (induction ls)
  case Nil
  then show ?case by simp
next
  case (Cons l ls)
  show ?case
  proof (cases "ls = []")
    case True
    then show ?thesis by simp
  next
    case False
    then have "join sep ls \<noteq> []" using Cons.prems(2) by (simp add: join_nonempty)
    then show ?thesis using False Cons by (simp add: join_Cons_nonempty)
  qed
qed

lemma join_trimmed:
  assumes "ls \<noteq> []" "\<forall>l\<in>set ls. l \<noteq> [] \<and> py_strip l = l"
  shows "join sep ls \<noteq> [] \<and> py_strip (join sep ls) = join sep ls"
proof -
  have ne: "\<forall>l\<in>set ls. l \<noteq> []" using assms(2) by blast
  obtain l rest where ls: "ls = l # rest" using assms(1) by (cases ls) auto
  have l: "l \<noteq> []" "\<not> py_isspace (hd l)" using assms(2) ls by (auto simp: trimmed_iff)
  have "last ls \<in> set ls" using assms(1) by simp
  then have la: "\<not> py_isspace (last (last ls))" using assms(2) by (auto simp: trimmed_iff)
  have "hd (join sep ls) = hd l" using l ls by (simp add: join_hd)
  moreover have "last (join sep ls) = last (last ls)" using assms(1) ne by (rule join_last)
  ultimately show ?thesis using l la join_nonempty[OF assms(1) ne] by (simp add: trimmed_iff)
qed

lemma coerce_obj_trimmed:
  "(coerce_obj x = Some s \<longrightarrow> s \<noteq> [] \<and> py_strip s = s)"
  "(coerce_values kvs = Some s \<longrightarrow> s \<noteq> [] \<and> py_strip s = s)"
  "(coerce_elems xs = Some s \<longrightarrow> s \<noteq> [] \<and> py_strip s = s)"
  by (induction x and kvs and xs rule: coerce_obj_coerce_values_coerce_elems.induct)
     (auto simp: Let_def py_strip_idem split: if_splits option.splits)

lemma coerce_trimmed: "coerce_to_string v = Some s \<Longrightarrow> s \<noteq> [] \<and> py_strip s = s"
  using coerce_obj_trimmed(1) by (cases v) (auto simp: coerce_to_string_def)

subsection \<open>Name inheritance\<close>

lemma most_recent_Nil: "most_recent fallback [] = fallback"
  by (simp add: most_recent_def)

lemma most_recent_Cons:
  "most_recent fallback (n # ns) = most_recent (if nonempty n then n else fallback) ns"
  by (cases "filter nonempty (rev ns)") (simp_all add: most_recent_def)

lemma inherit_names_length: "length (inherit_names seen ns) = length ns"
  by (induction ns arbitrary: seen) simp_all

lemma inherit_names_nth:
  "i < length ns \<Longrightarrow>
   inherit_names seen ns ! i =
     (if nonempty (ns ! i) then ns ! i else most_recent seen (take i ns))"
proof (induction ns arbitrary: seen i)
  case Nil
  then show ?case by simp
next
  case (Cons n ns)
  show ?case
  proof (cases i)
    case 0
    then show ?thesis by (simp add: most_recent_Nil)
  next
    case (Suc j)
    then have j: "j < length ns" using Cons.prems by simp
    show ?thesis using Suc Cons.IH[OF j] by (simp add: most_recent_Cons)
  qed
qed

lemma entry_subtask_name_nonempty: "entry_subtask_name entry = Some n \<Longrightarrow> nonempty (Some n)"
  using coerce_trimmed[of _ n] by (auto simp: entry_subtask_name_def nonempty_def)

lemma name_xfa_row: "name (xfa_row n entry) = n"
  by (simp add: xfa_row_def)

lemma xfa_subtasks_names:
  "map name (xfa_subtasks seen payload) =
     inherit_names seen (map entry_subtask_name (dict_entries payload))"
proof (induction seen payload rule: xfa_subtasks.induct)
  case (2 seen entry rest)
  show ?case
  proof (cases "entry_subtask_name entry")
    case None
    then show ?thesis using 2 by (simp add: name_xfa_row nonempty_def)
  next
    case (Some n)
    then show ?thesis using 2 entry_subtask_name_nonempty[OF Some] by (simp add: name_xfa_row)
  qed
qed simp_all

lemma xfa_subtasks_length: "length (xfa_subtasks seen payload) = length (dict_entries payload)"
  using arg_cong[OF xfa_subtasks_names, of length seen payload]
  by (simp add: inherit_names_length)

lemma xfa_inheritance:
  assumes "i < length (dict_entries payload)"
  shows "name (xfa_subtasks None payload ! i) =
           (case entry_subtask_name (dict_entries payload ! i) of
              Some n \<Rightarrow> Some n
            | None \<Rightarrow> most_recent None (map entry_subtask_name (take i (dict_entries payload))))"
proof -
  let ?names = "map entry_subtask_name (dict_entries payload)"
  have i: "i < length ?names" using assms by simp
  have "name (xfa_subtasks None payload ! i) = map name (xfa_subtasks None payload) ! i"
    using assms by (simp add: xfa_subtasks_length)
  also have "\<dots> = inherit_names None ?names ! i" by (simp only: xfa_subtasks_names)
  also have "\<dots> = (if nonempty (?names ! i) then ?names ! i else most_recent None (take i ?names))"
    using i by (rule inherit_names_nth)
  finally show ?thesis
    using assms entry_subtask_name_nonempty[of "dict_entries payload ! i"]
    by (auto simp: take_map nonempty_def split: option.splits)
qed

subsection \<open>The heuristic rows\<close>

lemma extract_rows_rows_from: "extract_rows seen row_matches = rows_from seen (kept_rows row_matches)"
  by (induction row_matches arbitrary: seen) (simp_all add: kept_rows_def)

lemma rows_from_length: "length (rows_from seen kept) = length kept"
  by (induction kept arbitrary: seen) simp_all

lemma scan_line_subtask_lines:
  assumes "clean_lines (subtask_lines st)"
  shows "clean_lines (subtask_lines (fst (scan_line st raw)))"
  using assms by (auto simp: scan_line_def Let_def clean_lines_def py_strip_idem)

lemma scan_lines_subtask_lines:
  "clean_lines (subtask_lines st) \<Longrightarrow> clean_lines (subtask_lines (scan_lines st raws))"
proof (induction raws arbitrary: st)
  case Nil
  then show ?case by simp
next
  case (Cons raw rest)
  have c: "clean_lines (subtask_lines (fst (scan_line st raw)))"
    using Cons.prems by (rule scan_line_subtask_lines)
  show ?case using c Cons.IH[OF c] by (simp add: scan_lines_step del: scan_lines.simps)
qed

lemma scanned_clean: "clean_lines (subtask_lines (scan_lines scan_start raws))"
  by (rule scan_lines_subtask_lines) (simp add: scan_start_def clean_lines_def)

lemma split_by_category_subset: "set (fst (split_by_category ls)) \<subseteq> set ls"
  by (auto simp: split_by_category_def split: option.splits dest: in_set_takeD)

lemma split_by_length_subset: "set (fst (split_by_length (a, b))) \<subseteq> set a"
  by (auto simp: split_by_length_def Let_def dest: in_set_takeD)

lemma split_subtask_lines_subset: "set (fst (split_subtask_lines ls)) \<subseteq> set ls"
proof -
  obtain a b where ab: "split_by_category ls = (a, b)" by (cases "split_by_category ls")
  have "set a \<subseteq> set ls" using split_by_category_subset[of ls] ab by simp
  moreover have "set (fst (split_by_length (a, b))) \<subseteq> set a" by (rule split_by_length_subset)
  ultimately show ?thesis by (auto simp: split_subtask_lines_def ab)
qed

lemma name_and_hazard_tidy:
  assumes "clean_lines a"
  shows "tidy (fst (name_and_hazard (a, b)))"
proof (cases "a = []")
  case True
  then show ?thesis by (simp add: name_and_hazard_def tidy_def nonempty_def)
next
  case False
  have j: "py_strip (join '' '' a) = join '' '' a"
    using join_trimmed[OF False, of "'' ''"] assms by (simp add: clean_lines_def)
  show ?thesis using False j
    by (auto simp: name_and_hazard_def tidy_def Let_def py_strip_idem
             split: option.splits if_splits prod.splits)
qed

lemma repair_fst: "fst (repair prev nh) = fst nh \<or> fst (repair prev nh) = prev"
  by (cases nh) (auto simp: repair_def Let_def)

lemma reuse_previous_fst: "fst (reuse_previous prev nh) = fst nh \<or> fst (reuse_previous prev nh) = prev"
  by (cases nh) (auto simp: reuse_previous_def)

lemma repair_empty: "\<not> nonempty (fst nh) \<Longrightarrow> repair prev nh = nh"
  by (cases nh) (simp add: repair_def)

lemma reuse_previous_empty: "\<not> nonempty (fst nh) \<Longrightarrow> reuse_previous prev nh = nh"
  by (cases nh) (simp add: reuse_previous_def)

lemma current_name_cases: "current_name seen lines = explicit_name lines \<or> current_name seen lines = seen"
  unfolding current_name_def explicit_name_def
  using repair_fst reuse_previous_fst by metis

lemma explicit_name_tidy: "tidy (explicit_name lines)"
proof -
  obtain a b where ab: "split_subtask_lines (subtask_lines (scan_lines scan_start lines)) = (a, b)"
    by (cases "split_subtask_lines (subtask_lines (scan_lines scan_start lines))")
  have "set a \<subseteq> set (subtask_lines (scan_lines scan_start lines))"
    using split_subtask_lines_subset[of "subtask_lines (scan_lines scan_start lines)"] ab by simp
  then have "clean_lines a" using scanned_clean[of lines] by (auto simp: clean_lines_def)
  then show ?thesis unfolding explicit_name_def ab by (rule name_and_hazard_tidy)
qed

lemma current_name_tidy: "tidy seen \<Longrightarrow> tidy (current_name seen lines)"
  using current_name_cases[of seen lines] explicit_name_tidy[of lines] by auto

lemma current_name_explicit_empty:
  "\<not> nonempty (explicit_name lines) \<Longrightarrow> current_name seen lines = explicit_name lines"
  unfolding current_name_def explicit_name_def
  by (simp add: repair_empty reuse_previous_empty)

lemma tidy_nonempty: "tidy n \<Longrightarrow> nonempty n \<Longrightarrow> py_strip (the n) \<noteq> [] \<and> Some (py_strip (the n)) = n"
  by (cases n) (auto simp: tidy_def nonempty_def)

lemma heuristic_row_name:
  "name (heuristic_row seen lines) =
     (if nonempty (current_name seen lines) \<and> py_strip (the (current_name seen lines)) \<noteq> []
      then current_name seen lines
      else if nonempty seen then seen else current_name seen lines)"
  by (simp add: heuristic_row_def current_name_def Let_def)

lemma next_subtask_name_eq:
  "next_subtask_name seen lines =
     (if nonempty (current_name seen lines) \<and> py_strip (the (current_name seen lines)) \<noteq> []
      then Some (py_strip (the (current_name seen lines)))
      else seen)"
  by (simp add: next_subtask_name_def current_name_def Let_def)

lemma next_is_most_recent:
  assumes "tidy seen"
  shows "next_subtask_name seen lines = most_recent seen [name (heuristic_row seen lines)]
       \<and> tidy (next_subtask_name seen lines)"
proof -
  have t: "tidy (current_name seen lines)" using assms by (rule current_name_tidy)
  show ?thesis
  proof (cases "nonempty (current_name seen lines)")
    case True
    then show ?thesis using tidy_nonempty[OF t True] t
      by (simp add: heuristic_row_name next_subtask_name_eq most_recent_Cons most_recent_Nil)
  next
    case False
    then show ?thesis using assms
      by (simp add: heuristic_row_name next_subtask_name_eq most_recent_Cons most_recent_Nil)
  qed
qed

lemma rows_from_inheritance:
  assumes "tidy seen" "i < length kept" "\<not> nonempty (explicit_name (kept ! i))"
  shows "name (rows_from seen kept ! i) =
           (if nonempty (most_recent seen (map name (take i (rows_from seen kept))))
            then most_recent seen (map name (take i (rows_from seen kept)))
            else explicit_name (kept ! i))"
  using assms
proof (induction kept arbitrary: seen i)
  case Nil
  then show ?case by simp
next
  case (Cons lines rest)
  show ?case
  proof (cases i)
    case 0
    then have e: "\<not> nonempty (explicit_name lines)" using Cons.prems(3) by simp
    then have c: "current_name seen lines = explicit_name lines"
      by (rule current_name_explicit_empty)
    show ?thesis using 0 e c by (simp add: heuristic_row_name most_recent_Nil)
  next
    case (Suc j)
    have n: "next_subtask_name seen lines = most_recent seen [name (heuristic_row seen lines)]"
      and t: "tidy (next_subtask_name seen lines)"
      using next_is_most_recent[OF Cons.prems(1), of lines] by blast+
    have j: "j < length rest" "\<not> nonempty (explicit_name (rest ! j))"
      using Cons.prems(2,3) Suc by simp_all
    have m: "most_recent seen (map name (take i (rows_from seen (lines # rest)))) =
             most_recent (next_subtask_name seen lines)
               (map name (take j (rows_from (next_subtask_name seen lines) rest)))"
      using Suc by (simp add: most_recent_Cons n most_recent_Nil)
    show ?thesis unfolding m using Cons.IH[OF t j] Suc by simp
  qed
qed

text \<open>
  Claim C4. In the structured path the rows are the entries of the table that are
  mappings, in their order, and a row without a name of its own carries the most recent
  non-empty name of an earlier row. In the heuristic path the rows are the row texts that
  are not blank, in their order, and a row whose own text gives no name carries the most
  recent non-empty name that an earlier row carries in the output (its own empty name
  where there is none). So of three consecutive rows where only the first has a name, all
  three carry that name.
\<close>

theorem name_inheritance:
  "length (xfa_subtasks None payload) = length (dict_entries payload)
   \<and> (\<forall>i. i < length (dict_entries payload) \<longrightarrow>
         name (xfa_subtasks None payload ! i) =
           (case entry_subtask_name (dict_entries payload ! i) of
              Some n \<Rightarrow> Some n
            | None \<Rightarrow> most_recent None (map entry_subtask_name (take i (dict_entries payload)))))
   \<and> length (extract_rows None row_matches) = length (kept_rows row_matches)
   \<and> (\<forall>i. i < length (kept_rows row_matches)
            \<and> \<not> nonempty (explicit_name (kept_rows row_matches ! i)) \<longrightarrow>
         name (extract_rows None row_matches ! i) =
           (if nonempty (most_recent None (map name (take i (extract_rows None row_matches))))
            then most_recent None (map name (take i (extract_rows None row_matches)))
            else explicit_name (kept_rows row_matches ! i)))"
proof (intro conjI allI impI)
  show "length (xfa_subtasks None payload) = length (dict_entries payload)"
    by (rule xfa_subtasks_length)
  show "length (extract_rows None row_matches) = length (kept_rows row_matches)"
    by (simp add: extract_rows_rows_from rows_from_length)
next
  fix i assume "i < length (dict_entries payload)"
  then show "name (xfa_subtasks None payload ! i) =
           (case entry_subtask_name (dict_entries payload ! i) of
              Some n \<Rightarrow> Some n
            | None \<Rightarrow> most_recent None (map entry_subtask_name (take i (dict_entries payload))))"
    by (rule xfa_inheritance)
next
  fix i
  assume a: "i < length (kept_rows row_matches)
              \<and> \<not> nonempty (explicit_name (kept_rows row_matches ! i))"
  have t: "tidy None" by (simp add: tidy_def)
  show "name (extract_rows None row_matches ! i) =
           (if nonempty (most_recent None (map name (take i (extract_rows None row_matches))))
            then most_recent None (map name (take i (extract_rows None row_matches)))
            else explicit_name (kept_rows row_matches ! i))"
    unfolding extract_rows_rows_from using rows_from_inheritance[OF t] a by blast
qed

lemma list_of_three: "length xs = 3 \<Longrightarrow> xs = [xs ! 0, xs ! 1, xs ! 2]"
  by (auto simp: numeral_3_eq_3 length_Suc_conv numeral_2_eq_2)

theorem name_inheritance_witness:
  "(1 < length (dict_entries three_entries) \<and> 2 < length (dict_entries three_entries))
   \<and> entry_subtask_name (dict_entries three_entries ! 1) = None
   \<and> entry_subtask_name (dict_entries three_entries ! 2) = None
   \<and> map name (xfa_subtasks None three_entries)
       = [Some ''Move out'', Some ''Move out'', Some ''Move out'']
   \<and> (1 < length (kept_rows three_rows) \<and> 2 < length (kept_rows three_rows))
   \<and> \<not> nonempty (explicit_name (kept_rows three_rows ! 1))
   \<and> \<not> nonempty (explicit_name (kept_rows three_rows ! 2))
   \<and> map name (extract_rows None three_rows)
       = [Some ''Convoy ops'', Some ''Convoy ops'', Some ''Convoy ops'']"
proof -
  note t = name_inheritance[of three_entries three_rows]
  have e: "dict_entries three_entries =
             [[(''Subtask'', Str ''Move out''), (''Hazard'', Str ''Rollover'')],
              [(''Hazard'', Str ''Heat'')],
              [(''Subtask'', Str ''  ''), (''Hazard'', Str ''Cold'')]]"
    by (simp add: three_entries_def)
  have n: "map entry_subtask_name (dict_entries three_entries) = [Some ''Move out'', None, None]"
    by code_simp
  have n': "entry_subtask_name (dict_entries three_entries ! 0) = Some ''Move out''"
    "entry_subtask_name (dict_entries three_entries ! 1) = None"
    "entry_subtask_name (dict_entries three_entries ! 2) = None"
    using n by (simp_all add: e)
  have lx: "length (xfa_subtasks None three_entries) = 3" using t by (simp add: e)
  have x0: "name (xfa_subtasks None three_entries ! 0) = Some ''Move out''"
    using t n' by (simp add: e)
  have "name (xfa_subtasks None three_entries ! 1)
          = most_recent None (map entry_subtask_name (take 1 (dict_entries three_entries)))"
    using t n'(2) by (simp add: e)
  then have x1: "name (xfa_subtasks None three_entries ! 1) = Some ''Move out''"
    using n' by (simp add: e most_recent_def nonempty_def)
  have "name (xfa_subtasks None three_entries ! 2)
          = most_recent None (map entry_subtask_name (take 2 (dict_entries three_entries)))"
    using t n'(3) by (simp add: e)
  then have x2: "name (xfa_subtasks None three_entries ! 2) = Some ''Move out''"
    using n' by (simp add: e most_recent_def nonempty_def numeral_2_eq_2)
  have xs: "map name (xfa_subtasks None three_entries)
              = [Some ''Move out'', Some ''Move out'', Some ''Move out'']"
    using list_of_three[of "map name (xfa_subtasks None three_entries)"] lx x0 x1 x2 by simp
  have k: "length (kept_rows three_rows) = 3" by code_simp
  have h1: "\<not> nonempty (explicit_name (kept_rows three_rows ! 1))" by code_simp
  have h2: "\<not> nonempty (explicit_name (kept_rows three_rows ! 2))" by code_simp
  have lr: "length (extract_rows None three_rows) = 3" using t k by simp
  have r0: "name (extract_rows None three_rows ! 0) = Some ''Convoy ops''" by code_simp
  have m1: "most_recent None (map name (take 1 (extract_rows None three_rows))) = Some ''Convoy ops''"
    using r0 lr by (simp add: take_Suc_conv_app_nth most_recent_def nonempty_def)
  have "name (extract_rows None three_rows ! 1) =
          (if nonempty (most_recent None (map name (take 1 (extract_rows None three_rows))))
           then most_recent None (map name (take 1 (extract_rows None three_rows)))
           else explicit_name (kept_rows three_rows ! 1))"
    using t h1 k by simp
  then have r1: "name (extract_rows None three_rows ! 1) = Some ''Convoy ops''"
    unfolding m1 by (simp add: nonempty_def)
  have m2: "most_recent None (map name (take 2 (extract_rows None three_rows))) = Some ''Convoy ops''"
    using r0 r1 lr
    by (simp add: numeral_2_eq_2 take_Suc_conv_app_nth most_recent_def nonempty_def)
  have "name (extract_rows None three_rows ! 2) =
          (if nonempty (most_recent None (map name (take 2 (extract_rows None three_rows))))
           then most_recent None (map name (take 2 (extract_rows None three_rows)))
           else explicit_name (kept_rows three_rows ! 2))"
    using t h2 k by simp
  then have r2: "name (extract_rows None three_rows ! 2) = Some ''Convoy ops''"
    unfolding m2 by (simp add: nonempty_def)
  have rs: "map name (extract_rows None three_rows)
              = [Some ''Convoy ops'', Some ''Convoy ops'', Some ''Convoy ops'']"
    using list_of_three[of "map name (extract_rows None three_rows)"] lr r0 r1 r2 by simp
  show ?thesis using n' xs h1 h2 rs k by (simp add: e)
qed

subsection \<open>The processing of one file\<close>

text \<open>
  Claim C5. Where the structured extractor yields a record, \<open>process_pdf\<close> runs no text
  backend and not the heuristic parser, whatever the text layer holds; and where the output
  can be written it writes exactly that record, under the name derived for it, and returns
  success.
\<close>

theorem structured_path_precedence:
  assumes "parse_dd2977_xfa (xfa_dataset file) = Inr (Some parsed)"
  shows "\<exists>events ok. process_pdf file force_ocr = (events, ok)
           \<and> (\<forall>b. Text_backend b \<notin> set events) \<and> (\<forall>t. Heuristic_parser t \<notin> set events)
           \<and> (writable file \<longrightarrow>
                events = [Structured_extractor, Wrote (build_outpath file parsed) parsed] \<and> ok)"
  using assms by (simp add: process_pdf_def write_record_def)

lemma dataset_file_parsed:
  "parse_dd2977_xfa (xfa_dataset dataset_file) = Inr (Some dataset_record)"
  by code_simp

lemma dataset_file_outpath:
  "build_outpath dataset_file dataset_record = ''20240305-draw-20240305-range.json''"
  by code_simp

theorem structured_path_precedence_witness:
  "parse_dd2977_xfa (xfa_dataset dataset_file) = Inr (Some dataset_record)
   \<and> usable (pymupdf_text dataset_file)
   \<and> process_pdf dataset_file False =
       ([Structured_extractor, Wrote ''20240305-draw-20240305-range.json'' dataset_record], True)"
proof -
  have w: "writable dataset_file" by (simp add: dataset_file_def)
  have u: "usable (pymupdf_text dataset_file)" by code_simp
  from structured_path_precedence[OF dataset_file_parsed, of False] w
  obtain events ok where "process_pdf dataset_file False = (events, ok)"
    "events = [Structured_extractor, Wrote (build_outpath dataset_file dataset_record) dataset_record]"
    "ok"
    by blast
  then show ?thesis using dataset_file_parsed u by (simp add: dataset_file_outpath)
qed

lemma backend_events:
  "set (fst (extract_text_multibackend file force_ocr)) \<subseteq> range Text_backend"
  by (auto simp: extract_text_multibackend_def)

text \<open>
  Claim C6. Where the structured path yields nothing and the transcript is the message of
  a viewer that cannot render the form (it holds both "Please wait" and "Adobe Reader",
  which is how the code knows it), \<open>process_pdf\<close> reports the diagnostic of the missing
  dataset capability and fails; it does not report that no text could be extracted, and
  the heuristic parser does not run.
\<close>

theorem placeholder_detection:
  assumes "parse_dd2977_xfa (xfa_dataset file) = Inr None"
    and "contains (snd (extract_text_multibackend file force_ocr)) ''Please wait''"
    and "contains (snd (extract_text_multibackend file force_ocr)) ''Adobe Reader''"
  shows "\<exists>events. process_pdf file force_ocr = (events, False)
           \<and> last events = Xfa_capability_diagnostic
           \<and> No_text_diagnostic \<notin> set events \<and> Error_diagnostic \<notin> set events
           \<and> (\<forall>t. Heuristic_parser t \<notin> set events) \<and> (\<forall>path r. Wrote path r \<notin> set events)"
proof -
  let ?events = "Structured_extractor # fst (extract_text_multibackend file force_ocr)
                   @ [Xfa_capability_diagnostic]"
  have "process_pdf file force_ocr = (?events, False)"
    using assms by (simp add: process_pdf_def Let_def)
  moreover have "last ?events = Xfa_capability_diagnostic" by simp
  moreover have "No_text_diagnostic \<notin> set ?events" "Error_diagnostic \<notin> set ?events"
    "\<forall>t. Heuristic_parser t \<notin> set ?events" "\<forall>path r. Wrote path r \<notin> set ?events"
    using backend_events[of "file" force_ocr] by auto
  ultimately show ?thesis by blast
qed

lemma placeholder_file_text:
  "contains (snd (extract_text_multibackend placeholder_file False)) ''Please wait''"
  "contains (snd (extract_text_multibackend placeholder_file False)) ''Adobe Reader''"
  "fst (extract_text_multibackend placeholder_file False) = [Text_backend Pymupdf]"
  by code_simp+

theorem placeholder_detection_witness:
  "parse_dd2977_xfa (xfa_dataset placeholder_file) = Inr None
   \<and> contains (snd (extract_text_multibackend placeholder_file False)) ''Please wait''
   \<and> contains (snd (extract_text_multibackend placeholder_file False)) ''Adobe Reader''
   \<and> process_pdf placeholder_file False =
       ([Structured_extractor, Text_backend Pymupdf, Xfa_capability_diagnostic], False)"
proof -
  have n: "parse_dd2977_xfa (xfa_dataset placeholder_file) = Inr None" by code_simp
  from placeholder_detection[OF n placeholder_file_text(1,2)]
  obtain events where e: "process_pdf placeholder_file False = (events, False)" by blast
  have "process_pdf placeholder_file False =
          (Structured_extractor # fst (extract_text_multibackend placeholder_file False)
             @ [Xfa_capability_diagnostic], False)"
    using n placeholder_file_text(1,2) by (simp add: process_pdf_def Let_def)
  then show ?thesis using n placeholder_file_text e by simp
qed

subsection \<open>The narrative of the plan\<close>

lemma parse_dd2977_overall:
  "map_sum id overall_residual_risk_level (parse_dd2977 text) =
     (case overall_before_narrative text (extract_subtask_rows text) of
        Inl e \<Rightarrow> Inl e
      | Inr overall_residual \<Rightarrow>
          (case parse_checkbox_value text ''APPROVE:'' of
             Inl e \<Rightarrow> Inl e
           | Inr approve_mark \<Rightarrow>
               (case parse_checkbox_value text ''DISAPPROVE:'' of
                  Inl e \<Rightarrow> Inl e
                | Inr disapprove_mark \<Rightarrow>
                    Inr (case narrative_overall (supervision_plan text) of
                           Some mapped_level \<Rightarrow> Some mapped_level
                         | None \<Rightarrow> overall_residual))))"
  by (simp add: parse_dd2977_def Let_def split: sum.splits)

lemma wrapped_plan_parts:
  "explicit_overall wrapped_plan = Some ''LOW''"
  "parse_checkbox_value wrapped_plan ''APPROVE:'' = Inr 0"
  "parse_checkbox_value wrapped_plan ''DISAPPROVE:'' = Inr 0"
  "supervision_plan wrapped_plan = Some ''The overall residual risk is extremely\<newline>high.''"
  by code_simp+

lemma wrapped_plan_match:
  "plan_match (Some ''The overall residual risk is extremely\<newline>high.'') = Some ''extremely\<newline>high''"
  by code_simp

lemma wrapped_plan_narrative:
  "narrative_overall (Some ''The overall residual risk is extremely\<newline>high.'') = None"
  unfolding narrative_overall_def wrapped_plan_match
  by (simp add: risk_map_def py_string_simps)

lemma unwrapped_plan_parts:
  "explicit_overall unwrapped_plan = Some ''LOW''"
  "parse_checkbox_value unwrapped_plan ''APPROVE:'' = Inr 0"
  "parse_checkbox_value unwrapped_plan ''DISAPPROVE:'' = Inr 0"
  "supervision_plan unwrapped_plan = Some ''The overall residual risk is extremely high.''"
  by code_simp+

lemma unwrapped_plan_match:
  "plan_match (Some ''The overall residual risk is extremely high.'') = Some ''extremely high''"
  by code_simp

lemma unwrapped_plan_narrative:
  "narrative_overall (Some ''The overall residual risk is extremely high.'') = Some ''EXTREMELY HIGH''"
  unfolding narrative_overall_def unwrapped_plan_match
  by (simp add: risk_map_def py_string_simps)

text \<open>
  Claim C10 at a plan that is wrapped in the middle of the level. The pattern matches the
  phrase (it allows any blanks between the two words), but the level is looked up with one
  space between them, so nothing is overwritten: the option marked in section 10 stays.
  On one line the same plan overrides that option.
\<close>

theorem narrative_line_break_missed:
  "plan_match (supervision_plan wrapped_plan) = Some ''extremely\<newline>high''
   \<and> narrative_overall (supervision_plan wrapped_plan) = None
   \<and> map_sum id overall_residual_risk_level (parse_dd2977 wrapped_plan) = Inr (Some ''LOW'')
   \<and> plan_match (supervision_plan unwrapped_plan) = Some ''extremely high''
   \<and> map_sum id overall_residual_risk_level (parse_dd2977 unwrapped_plan)
       = Inr (Some ''EXTREMELY HIGH'')"
  by (simp add: parse_dd2977_overall overall_before_narrative_def nonempty_def
        wrapped_plan_parts unwrapped_plan_parts wrapped_plan_match unwrapped_plan_match
        wrapped_plan_narrative unwrapped_plan_narrative)

subsection \<open>Patterns that cannot match\<close>

lemma lit_Cons: "lit (x # xs) = Seq (Chr (Of [x])) (lit xs)"
  by (simp add: lit_def)

lemma seqs_Cons: "seqs (r # rs) = Seq r (seqs rs)"
  by (simp add: seqs_def)

lemma rmatch_lit_absent:
  "c \<in> set l \<Longrightarrow> c \<notin> set s \<Longrightarrow> rmatch (lit l) k (p, s) = None"
proof (induction l arbitrary: p s k)
  case Nil
  then show ?case by simp
next
  case (Cons x xs)
  show ?case
  proof (cases s)
    case Nil
    then show ?thesis by (simp add: lit_Cons)
  next
    case (Cons d t)
    show ?thesis
    proof (cases "d = x")
      case True
      then have "x \<noteq> c" using Cons.prems(2) Cons by auto
      then have "c \<in> set xs" using Cons.prems(1) by auto
      moreover have "c \<notin> set t" using Cons.prems(2) Cons by auto
      ultimately have "rmatch (lit xs) k (Some d, t) = None" by (rule Cons.IH)
      then show ?thesis using Cons True by (simp add: lit_Cons)
    next
      case False
      then show ?thesis using Cons by (simp add: lit_Cons)
    qed
  qed
qed

lemma rsearch_None:
  "(\<And>p' s'. set s' \<subseteq> set s \<Longrightarrow> m (p', s') = None) \<Longrightarrow> rsearch m skipped (p, s) = None"
proof (induction s arbitrary: skipped p)
  case Nil
  then show ?case by simp
next
  case (Cons c t)
  have here: "m (p, c # t) = None" using Cons.prems[of "c # t" p] by simp
  have "\<And>p' s'. set s' \<subseteq> set t \<Longrightarrow> m (p', s') = None"
    using Cons.prems by (meson set_subset_Cons subset_trans)
  then have "rsearch m (c # skipped) (Some c, t) = None" by (rule Cons.IH)
  then show ?case using here by simp
qed

lemma group1_lit_absent:
  assumes "c \<in> set l" "c \<notin> set text"
  shows "group1 (seqs (lit l # rs)) grp post text = None"
proof -
  have "\<And>p' s'. set s' \<subseteq> set text \<Longrightarrow> match_group (seqs (lit l # rs)) grp post (p', s') = None"
  proof -
    fix p' s' assume "set s' \<subseteq> set text"
    then have "c \<notin> set s'" using assms(2) by auto
    then show "match_group (seqs (lit l # rs)) grp post (p', s') = None"
      using rmatch_lit_absent[OF assms(1)] by (simp add: match_group_def seqs_Cons)
  qed
  then have "rsearch (match_group (seqs (lit l # rs)) grp post) [] (None, text) = None"
    by (rule rsearch_None)
  then show ?thesis by (simp add: group1_def search_group_def)
qed

lemma table_section_absent: "CHR ''9'' \<notin> set text \<Longrightarrow> table_section text = None"
  unfolding table_section_def by (rule group1_lit_absent[of "CHR ''9''"]) simp_all

lemma overall_block_absent: "CHR ''0'' \<notin> set text \<Longrightarrow> overall_block text = None"
  unfolding overall_block_def by (rule group1_lit_absent[of "CHR ''0''"]) simp_all

subsection \<open>The approval mark\<close>

lemma try_down_top: "lo \<le> j \<Longrightarrow> f j = Some r \<Longrightarrow> try_down f lo j = Some r"
  by (subst try_down.simps) simp

lemma checkbox_match_ones:
  assumes "0 < n"
  shows "checkbox_match ''APPROVE:'' (''APPROVE: '' @ replicate n (CHR ''1'')) = Some (replicate n (CHR ''1''))"
proof -
  define ds where "ds = replicate n (CHR ''1'')"
  have tw: "takeWhile (in_cls ws) (CHR '' '' # ds) = [CHR '' '']"
    by (simp add: ds_def ws_def takeWhile_replicate)
  have td: "takeWhile (in_cls (Of ''0123456789Xx'')) ds = ds"
    by (simp add: ds_def takeWhile_replicate)
  have len: "length ds = n" by (simp add: ds_def)
  have blanks:
    "\<And>cont :: pos \<Rightarrow> (string \<times> pos) option.
       rmatch ws_star cont (Some (CHR '':''), CHR '' '' # ds)
       = (case cont (Some (CHR '' ''), ds) of Some r \<Rightarrow> Some r
          | None \<Rightarrow> cont (Some (CHR '':''), CHR '' '' # ds))"
    unfolding ws_star_def
    by (simp add: tw advance_def try_down.simps[of _ 0 "Suc 0"] try_down.simps[of _ 0 0]
          del: takeWhile.simps split: option.splits)
  have "match_group (seqs [Wordb, nocase ''APPROVE:'', ws_star]) (Many (Of ''0123456789Xx'') 1 True) Eps
          (None, ''APPROVE: '' @ ds) = Some (ds, (Some (ds ! (n - 1)), []))"
    unfolding match_group_def
    using assms
    by (simp add: seqs_def nocase_def at_boundary_def is_word_char_def is_upper_letter_def
          is_lower_letter_def is_digit_def py_string_simps blanks td len try_down_top
          advance_def group_text_def)
  then show ?thesis
    unfolding checkbox_match_def group1_def search_group_def ds_def[symmetric]
    by simp
qed

lemma parse_checkbox_value_long:
  assumes "4300 < n"
  shows "parse_checkbox_value (''APPROVE: '' @ replicate n (CHR ''1'')) ''APPROVE:'' = Inl ValueError"
proof -
  define ds where "ds = replicate n (CHR ''1'')"
  have m: "checkbox_match ''APPROVE:'' (''APPROVE: '' @ ds) = Some ds"
    unfolding ds_def using assms by (intro checkbox_match_ones) simp
  have s: "py_strip ds = ds"
    by (simp add: ds_def py_strip_def py_lstrip_def py_rstrip_def dropWhile_replicate py_isspace_def)
  have len: "length ds = n" by (simp add: ds_def)
  have notin: "ds \<notin> set [''1'', ''X'', ''x'', ''checked'', ''yes'', ''true'']"
  proof
    assume "ds \<in> set [''1'', ''X'', ''x'', ''checked'', ''yes'', ''true'']"
    then have "length ds \<le> 7" by auto
    then show False using assms len by simp
  qed
  have d: "ds \<noteq> []" "list_all is_digit ds"
    using assms by (auto simp: ds_def list_all_iff is_digit_def)
  have i: "py_int ds = Inl ValueError" using assms len by (simp add: py_int_def)
  show ?thesis
    unfolding parse_checkbox_value_def ds_def[symmetric] m
    using notin d i s by (simp add: Let_def)
qed

lemma parse_dd2977_long_mark:
  assumes "4300 < n"
  shows "parse_dd2977 (''APPROVE: '' @ replicate n (CHR ''1'')) = Inl ValueError"
proof -
  define doc where "doc = ''APPROVE: '' @ replicate n (CHR ''1'')"
  have "CHR ''9'' \<notin> set doc" "CHR ''0'' \<notin> set doc" by (auto simp: doc_def)
  then have t: "table_section doc = None" and o: "overall_block doc = None"
    by (simp_all add: table_section_absent overall_block_absent)
  have b: "overall_before_narrative doc (extract_subtask_rows doc) = Inr None"
    by (simp add: overall_before_narrative_def explicit_overall_def extract_subtask_rows_def t o
          nonempty_def calculate_overall_risk_def)
  have c: "parse_checkbox_value doc ''APPROVE:'' = Inl ValueError"
    unfolding doc_def using assms by (rule parse_checkbox_value_long)
  show ?thesis unfolding doc_def[symmetric] by (simp add: parse_dd2977_def Let_def b c)
qed

text \<open>
  Claim C8 at a text the parser can receive: the approval mark is a run of 4301 digits,
  which \<^verbatim>\<open>int\<close> refuses, so \<^verbatim>\<open>parse_checkbox_value\<close> raises \<^verbatim>\<open>ValueError\<close> and the
  parser returns no record.
\<close>

theorem parser_raises_on_long_mark: "parse_dd2977 long_mark = Inl ValueError"
  unfolding long_mark_def by (rule parse_dd2977_long_mark) simp

subsection \<open>The risk fields of a record\<close>






















subsection \<open>The slug\<close>






subsection \<open>What a match consumed\<close>













subsection \<open>The date of the name and the date of the field\<close>
















end
